theory Spec2Isabelle
  imports Complex_Main
begin

section \<open>JavaScript values\<close>

text \<open>
  A JavaScript string is a sequence of UTF-16 code units; a code unit is a natural
  number. \<open>js\<close> turns an ASCII literal into such a sequence. Characters that an
  Isabelle literal cannot hold are written by their code: 34 is the double quote, 39 the
  apostrophe, 233 the letter e with acute accent.
\<close>

type_synonym jsstr = "nat list"

definition js :: "string \<Rightarrow> jsstr" where
  "js s = map of_char s"

text \<open>
  The values that \<open>JSON.parse\<close> produces, together with \<open>undefined\<close> (the value of a
  missing property). A number is its exact rational value. An object is the list of its
  own properties; a key is looked up with \<open>map_of\<close>.
\<close>

datatype jsval =
    VUndef
  | VNull
  | VBool bool
  | VNum rat
  | VStr jsstr
  | VArr "jsval list"
  | VObj "(jsstr \<times> jsval) list"

text \<open>The errors that the modelled code can raise.\<close>

datatype js_error =
    Error jsstr         \<comment> \<open>\<open>new Error(message)\<close>\<close>
  | TypeError_null      \<comment> \<open>a property read on \<open>null\<close> or \<open>undefined\<close>\<close>
  | SyntaxError_json    \<comment> \<open>\<open>response.json()\<close> on a body that is not JSON\<close>
  | TypeError_fetch     \<comment> \<open>\<open>fetch\<close> rejected: the network request failed\<close>

text \<open>
  A message shown to the operator. \<open>message_of\<close> is \<open>err.message\<close>. The text of an
  engine-made error is not fixed by the language, so it is kept symbolic:
  \<open>Engine_text prefix e\<close> is \<open>prefix\<close> followed by the engine's text for \<open>e\<close>.
\<close>

datatype message = Text jsstr | Engine_text jsstr js_error

fun message_of :: "js_error \<Rightarrow> message" where
  "message_of (Error m) = Text m"
| "message_of e = Engine_text [] e"

text \<open>ToBoolean.\<close>

fun truthy :: "jsval \<Rightarrow> bool" where
  "truthy VUndef = False"
| "truthy VNull = False"
| "truthy (VBool b) = b"
| "truthy (VNum q) = (q \<noteq> 0)"
| "truthy (VStr s) = (s \<noteq> [])"
| "truthy (VArr _) = True"
| "truthy (VObj _) = True"

text \<open>The operator \<open>a || b\<close> on values.\<close>

definition js_or :: "jsval \<Rightarrow> jsval \<Rightarrow> jsval" where
  "js_or a b = (if truthy a then a else b)"

text \<open>
  The property read \<open>v.k\<close>. It raises on \<open>null\<close> and \<open>undefined\<close>. The keys read by the
  modelled code (\<open>error\<close>, \<open>session_id\<close>, \<open>final_url\<close>, \<open>stats\<close> and the fields of a stats
  record) are no built-in property of a string, number, boolean or array, so on those
  the read gives \<open>undefined\<close>.
\<close>

fun get_prop :: "jsval \<Rightarrow> jsstr \<Rightarrow> js_error + jsval" where
  "get_prop VUndef k = Inl TypeError_null"
| "get_prop VNull k = Inl TypeError_null"
| "get_prop (VObj ps) k = Inr (case map_of ps k of None \<Rightarrow> VUndef | Some v \<Rightarrow> v)"
| "get_prop v k = Inr VUndef"

text \<open>The optional chain \<open>v?.k\<close>: \<open>undefined\<close> on \<open>null\<close> and \<open>undefined\<close>, never an error.\<close>

fun opt_prop :: "jsval \<Rightarrow> jsstr \<Rightarrow> jsval" where
  "opt_prop (VObj ps) k = (case map_of ps k of None \<Rightarrow> VUndef | Some v \<Rightarrow> v)"
| "opt_prop v k = VUndef"

subsection \<open>Numbers and strings\<close>

text \<open>The decimal digits of a natural number, as \<open>String(n)\<close> gives them.\<close>

fun dec :: "nat \<Rightarrow> jsstr" where
  "dec n = (if n < 10 then [48 + n] else dec (n div 10) @ [48 + n mod 10])"

declare dec.simps [simp del]

text \<open>
  The platform around the code: the API base address (the build-time variable
  \<open>VITE_API_BASE_URL\<close>, when set), and the conversion of a number to a string, which the
  language defines on doubles (the shortest digits that identify the double) and which
  is taken as given. Only for a natural number below \<open>2^53\<close> does the model compute the
  string itself: each of them is a double, and its string is its decimal digits.
\<close>

record platform =
  VITE_API_BASE_URL :: "jsstr option"
  number_to_string :: "rat \<Rightarrow> jsstr"

text \<open>
  A platform for the examples: no base address is configured. No example converts a
  number other than a natural number below \<open>2^53\<close>, so the texts of those are left empty.
\<close>

definition example_platform :: platform where
  "example_platform = \<lparr> VITE_API_BASE_URL = None, number_to_string = (\<lambda>q. []) \<rparr>"

text \<open>\<open>import.meta.env.VITE_API_BASE_URL || 'http://localhost:5000/api'\<close>\<close>

definition API_BASE_URL :: "platform \<Rightarrow> jsstr" where
  "API_BASE_URL p =
     (case VITE_API_BASE_URL p of
        None \<Rightarrow> js ''http://localhost:5000/api''
      | Some u \<Rightarrow> if u \<noteq> [] then u else js ''http://localhost:5000/api'')"

text \<open>Intercalate, for \<open>Array.prototype.join\<close>.\<close>

fun join :: "jsstr \<Rightarrow> jsstr list \<Rightarrow> jsstr" where
  "join sep [] = []"
| "join sep [x] = x"
| "join sep (x # y # ys) = x @ sep @ join sep (y # ys)"

text \<open>ToString, as a template literal and \<open>new Error(v)\<close> apply it.\<close>

fun to_string :: "platform \<Rightarrow> jsval \<Rightarrow> jsstr" where
  "to_string p VUndef = js ''undefined''"
| "to_string p VNull = js ''null''"
| "to_string p (VBool b) = (if b then js ''true'' else js ''false'')"
| "to_string p (VNum q) =
     (if 0 \<le> q \<and> q < 2 ^ 53 \<and> of_int \<lfloor>q\<rfloor> = q then dec (nat \<lfloor>q\<rfloor>)
      else number_to_string p q)"
| "to_string p (VStr s) = s"
| "to_string p (VArr vs) =
     join (js '','')
       (map (\<lambda>v. if v = VUndef \<or> v = VNull then [] else to_string p v) vs)"
| "to_string p (VObj ps) = js ''[object Object]''"

section \<open>The progress indicator\<close>



subsection \<open>Double-precision arithmetic\<close>

text \<open>
  A JavaScript number is an IEEE double. A double is given here by its exact rational
  value. The number of binary digits of a positive integer (0 for the others):
\<close>

function bits :: "int \<Rightarrow> nat" where
  "bits n = (if n \<le> 0 then 0 else Suc (bits (n div 2)))"
  by pat_completeness auto

termination
  by (relation "measure nat") auto

declare bits.simps [simp del]

text \<open>
  The binary exponent of a positive rational \<open>x\<close>: the integer \<open>e\<close> with
  \<open>2^e \<le> x < 2^(e+1)\<close>. With \<open>x = a / b\<close> it is the difference of the digit counts of
  \<open>a\<close> and \<open>b\<close>, or one less.
\<close>

definition ilog2 :: "rat \<Rightarrow> int" where
  "ilog2 x =
     (case quotient_of x of (a, b) \<Rightarrow>
        (let d = int (bits a) - int (bits b)
         in if 2 powi d \<le> x then d else d - 1))"

text \<open>The nearest integer, a tie going to the even one.\<close>

definition round_half_even :: "rat \<Rightarrow> int" where
  "round_half_even m =
     (if m - of_int \<lfloor>m\<rfloor> < 1 / 2 then \<lfloor>m\<rfloor>
      else if 1 / 2 < m - of_int \<lfloor>m\<rfloor> then \<lfloor>m\<rfloor> + 1
      else if even \<lfloor>m\<rfloor> then \<lfloor>m\<rfloor> else \<lfloor>m\<rfloor> + 1)"

text \<open>
  The double nearest to a rational \<open>x\<close>, a tie going to the even significand: \<open>x\<close> is
  scaled by a power of two so that its integer part has 53 binary digits, rounded, and
  scaled back. This is what an arithmetic operation returns whose exact result is \<open>x\<close>,
  as long as \<open>x\<close> is zero or lies in the normal range of the doubles
  (\<open>2^-1022 \<le> |x| < 2^1024\<close>).
\<close>

definition double :: "rat \<Rightarrow> rat" where
  "double x =
     (if x = 0 then 0
      else of_int (round_half_even (x / 2 powi (ilog2 \<bar>x\<bar> - 52)))
           * 2 powi (ilog2 \<bar>x\<bar> - 52))"






subsection \<open>The error of the double arithmetic\<close>

lemma bits_lower: "0 < n \<Longrightarrow> 2 ^ (bits n - 1) \<le> n"
proof (induction n rule: bits.induct)
  case (1 n)
  show ?case
  proof (cases "n div 2 \<le> 0")
    case True
    with "1.prems" have "n = 1" by linarith
    then show ?thesis by (simp add: bits.simps [of 1] bits.simps [of 0])
  next
    case False
    then have pos: "0 < n div 2" by simp
    with "1.IH" "1.prems" have IH: "2 ^ (bits (n div 2) - 1) \<le> n div 2" by simp
    from pos have b: "0 < bits (n div 2)" by (simp add: bits.simps [of "n div 2"])
    have "bits n = Suc (bits (n div 2))" using "1.prems" by (simp add: bits.simps [of n])
    then have "(2::int) ^ (bits n - 1) = 2 * 2 ^ (bits (n div 2) - 1)"
      using b by (cases "bits (n div 2)") simp_all
    also have "\<dots> \<le> 2 * (n div 2)" using IH by simp
    also have "\<dots> \<le> n" by linarith
    finally show ?thesis .
  qed
qed

lemma bits_upper: "n < 2 ^ bits n"
proof (induction n rule: bits.induct)
  case (1 n)
  show ?case
  proof (cases "n \<le> 0")
    case True
    have "(0::int) < 2 ^ bits n" by simp
    with True show ?thesis by linarith
  next
    case False
    with "1.IH" have "n div 2 < 2 ^ bits (n div 2)" by simp
    then have "n < 2 * 2 ^ bits (n div 2)" by linarith
    with False show ?thesis by (simp add: bits.simps [of n])
  qed
qed


lemma ilog2_upper:
  assumes "0 < x"
  shows "x < 2 powi (ilog2 x + 1)"
proof -
  obtain a b where q: "quotient_of x = (a, b)" by (cases "quotient_of x")
  then have b: "0 < b" and x: "x = of_int a / of_int b"
    using quotient_of_denom_pos quotient_of_div by blast+
  with assms have a: "0 < a" by (simp add: zero_less_divide_iff)
  define la where "la = bits a"
  define lb where "lb = bits b"
  show ?thesis
  proof (cases "2 powi (int la - int lb) \<le> x")
    case False
    with q have "ilog2 x = int la - int lb - 1" by (simp add: ilog2_def la_def lb_def)
    with False show ?thesis by simp
  next
    case True
    with q have e: "ilog2 x = int la - int lb" by (simp add: ilog2_def la_def lb_def)
    have "a < 2 ^ la" unfolding la_def by (rule bits_upper)
    then have "(of_int a :: rat) < of_int (2 ^ la)" by (simp only: of_int_less_iff)
    then have A: "of_int a < (2::rat) ^ la" by simp
    from b have "2 ^ (lb - 1) \<le> b" unfolding lb_def by (rule bits_lower)
    then have "(of_int (2 ^ (lb - 1)) :: rat) \<le> of_int b" by (simp only: of_int_le_iff)
    then have B: "(2::rat) ^ (lb - 1) \<le> of_int b" by simp
    from b have lb: "0 < lb" unfolding lb_def by (simp add: bits.simps [of b])
    have ee: "int la - int lb + 1 = int la - int (lb - 1)" using lb by simp
    have "of_int a / of_int b < (2::rat) ^ la / of_int b"
      using A b by (simp add: divide_strict_right_mono)
    also have "\<dots> \<le> 2 ^ la / 2 ^ (lb - 1)"
      using B by (simp add: frac_le)
    also have "\<dots> = 2 powi (int la) / 2 powi (int (lb - 1))" by simp
    also have "\<dots> = 2 powi (int la - int (lb - 1))"
      by (rule power_int_diff [symmetric]) simp
    finally show ?thesis using e x by (simp only: ee)
  qed
qed

text \<open>
  Two checks of the rounding: the double nearest to one tenth, and the ties at
  \<open>2^53 + 1\<close> and \<open>2^53 + 3\<close>, which go to the even significand.
\<close>

lemma double_tenth: "double (1 / 10) = 3602879701896397 / 36028797018963968"
  by code_simp

lemma double_tie:
  "double 9007199254740993 = 9007199254740992"
  "double 9007199254740995 = 9007199254740996"
  by code_simp+





subsection \<open>Step states and percentage\<close>












section \<open>Platform functions\<close>

subsection \<open>Regular expressions\<close>

text \<open>
  The fragment of JavaScript regular expressions that the source uses, all under the
  flag \<open>i\<close>: a literal text, the greedy class repetition \<open>[^c]+\<close>, the greedy optional
  group \<open>(?:r)?\<close>, a numbered capture group, concatenation and alternation.
\<close>

datatype regex =
    Lit jsstr
  | Many1_except nat
  | Opt regex
  | Cap nat regex
  | Seq regex regex
  | Alt regex regex

text \<open>
  Canonicalisation under the flag \<open>i\<close> (without the flag \<open>u\<close>). The language maps a
  code unit to its upper case, except that a code unit from 128 on is never mapped
  below 128. All pattern characters of the source are ASCII, so it is enough to map the
  ASCII letters: a code unit from 128 on stays different from every pattern character.
\<close>

definition canon :: "nat \<Rightarrow> nat" where
  "canon c = (if 97 \<le> c \<and> c \<le> 122 then c - 32 else c)"

text \<open>A literal at the head of the input: the rest of the input behind it.\<close>

fun lit_match :: "jsstr \<Rightarrow> jsstr \<Rightarrow> jsstr option" where
  "lit_match [] s = Some s"
| "lit_match (p # ps) [] = None"
| "lit_match (p # ps) (c # cs) = (if canon p = canon c then lit_match ps cs else None)"

text \<open>
  \<open>[^x]+\<close> at the head of the input: every way to consume one or more code units
  other than \<open>x\<close>, the longest first (the order in which a greedy repetition backtracks).
\<close>

fun runs :: "nat \<Rightarrow> jsstr \<Rightarrow> (jsstr \<times> jsstr) list" where
  "runs x [] = []"
| "runs x (c # cs) =
     (if c = x then [] else map (\<lambda>(u, r). (c # u, r)) (runs x cs) @ [([c], cs)])"

type_synonym captures = "nat \<Rightarrow> jsstr option"

text \<open>
  The backtracking matcher: all matches of a pattern at the head of the input, in the
  order in which the engine tries them. A match is the matched text, the rest of the
  input and the captures.
\<close>

fun rmatch :: "regex \<Rightarrow> jsstr \<Rightarrow> captures \<Rightarrow> (jsstr \<times> jsstr \<times> captures) list" where
  "rmatch (Lit l) s c =
     (case lit_match l s of None \<Rightarrow> [] | Some r \<Rightarrow> [(take (length l) s, r, c)])"
| "rmatch (Many1_except x) s c = map (\<lambda>(u, r). (u, r, c)) (runs x s)"
| "rmatch (Opt r) s c = rmatch r s c @ [([], s, c)]"
| "rmatch (Cap n r) s c = map (\<lambda>(m, rest, c'). (m, rest, c'(n \<mapsto> m))) (rmatch r s c)"
| "rmatch (Seq p q) s c =
     concat (map (\<lambda>(m1, r1, c1). map (\<lambda>(m2, r2, c2). (m1 @ m2, r2, c2)) (rmatch q r1 c1))
       (rmatch p s c))"
| "rmatch (Alt p q) s c = rmatch p s c @ rmatch q s c"

text \<open>The captures of the first match at the head of the input, if there is one.\<close>

definition first_match :: "regex \<Rightarrow> jsstr \<Rightarrow> captures option" where
  "first_match r s =
     (case rmatch r s Map.empty of [] \<Rightarrow> None | (m, rest, c) # _ \<Rightarrow> Some c)"

text \<open>
  \<open>str.match(re)\<close> for a pattern without the flag \<open>g\<close>: the engine tries the pattern at
  position 0, then 1, and so on up to the end of the string, and stops at the first
  position that has a match; \<open>None\<close> is \<open>null\<close>. The result is the captures of that match.
\<close>

fun str_match :: "regex \<Rightarrow> jsstr \<Rightarrow> captures option" where
  "str_match r [] = first_match r []"
| "str_match r (a # t) =
     (case first_match r (a # t) of None \<Rightarrow> str_match r t | Some c \<Rightarrow> Some c)"

subsection \<open>decodeURIComponent\<close>

text \<open>The value of a hexadecimal digit.\<close>

definition hexval :: "nat \<Rightarrow> nat option" where
  "hexval c =
     (if 48 \<le> c \<and> c \<le> 57 then Some (c - 48)
      else if 65 \<le> c \<and> c \<le> 70 then Some (c - 55)
      else if 97 \<le> c \<and> c \<le> 102 then Some (c - 87)
      else None)"

definition octet :: "nat \<Rightarrow> nat \<Rightarrow> nat option" where
  "octet h1 h2 =
     (case hexval h1 of None \<Rightarrow> None
      | Some a \<Rightarrow> (case hexval h2 of None \<Rightarrow> None | Some b \<Rightarrow> Some (16 * a + b)))"

text \<open>The number of leading one bits of an octet (5 stands for five or more).\<close>

definition leading_ones :: "nat \<Rightarrow> nat" where
  "leading_ones b =
     (if b < 128 then 0 else if b < 192 then 1 else if b < 224 then 2
      else if b < 240 then 3 else if b < 248 then 4 else 5)"

definition continuation :: "nat \<Rightarrow> bool" where
  "continuation b = (128 \<le> b \<and> b < 192)"

text \<open>
  The code point of a well-formed UTF-8 sequence of two to four octets: continuation
  octets, no overlong form, no surrogate, nothing above \<open>0x10FFFF\<close>.
\<close>

fun utf8_code_point :: "nat list \<Rightarrow> nat option" where
  "utf8_code_point [b0, b1] =
     (let v = (b0 - 192) * 64 + (b1 - 128)
      in if continuation b1 \<and> 128 \<le> v then Some v else None)"
| "utf8_code_point [b0, b1, b2] =
     (let v = (b0 - 224) * 4096 + (b1 - 128) * 64 + (b2 - 128)
      in if continuation b1 \<and> continuation b2 \<and> 2048 \<le> v \<and> \<not> (55296 \<le> v \<and> v \<le> 57343)
         then Some v else None)"
| "utf8_code_point [b0, b1, b2, b3] =
     (let v = (b0 - 240) * 262144 + (b1 - 128) * 4096 + (b2 - 128) * 64 + (b3 - 128)
      in if continuation b1 \<and> continuation b2 \<and> continuation b3
            \<and> 65536 \<le> v \<and> v \<le> 1114111
         then Some v else None)"
| "utf8_code_point bs = None"

definition utf16_encode :: "nat \<Rightarrow> jsstr" where
  "utf16_encode v =
     (if v < 65536 then [v]
      else [55296 + (v - 65536) div 1024, 56320 + (v - 65536) mod 1024])"

text \<open>
  The decoding loop of the language specification. The first argument holds the octets
  of an unfinished multi-octet sequence, the second the number of octets still to come.
  Every way to fail is the one error \<open>URIError\<close>: \<open>None\<close>.
\<close>

fun decode :: "nat list \<Rightarrow> nat \<Rightarrow> jsstr \<Rightarrow> jsstr option" where
  "decode acc n [] = (if n = 0 then Some [] else None)"
| "decode acc n (c # cs) =
     (if n = 0 then
        (if c \<noteq> 37 then map_option ((#) c) (decode [] 0 cs)
         else (case cs of
             h1 # h2 # r \<Rightarrow>
               (case octet h1 h2 of
                  None \<Rightarrow> None
                | Some b \<Rightarrow>
                    if leading_ones b = 0 then map_option ((#) b) (decode [] 0 r)
                    else if leading_ones b = 1 \<or> 4 < leading_ones b then None
                    else decode [b] (leading_ones b - 1) r)
           | _ \<Rightarrow> None))
      else
        (if c \<noteq> 37 then None
         else (case cs of
             h1 # h2 # r \<Rightarrow>
               (case octet h1 h2 of
                  None \<Rightarrow> None
                | Some b \<Rightarrow>
                    if n = 1 then
                      (case utf8_code_point (acc @ [b]) of
                         None \<Rightarrow> None
                       | Some v \<Rightarrow> map_option ((@) (utf16_encode v)) (decode [] 0 r))
                    else decode (acc @ [b]) (n - 1) r)
           | _ \<Rightarrow> None)))"

definition decodeURIComponent :: "jsstr \<Rightarrow> jsstr option" where
  "decodeURIComponent s = decode [] 0 s"

subsection \<open>String.prototype.trim\<close>

text \<open>The white space and line terminator code units of the language.\<close>

definition white_space :: "nat \<Rightarrow> bool" where
  "white_space c =
     (c \<in> {9, 10, 11, 12, 13, 32, 160, 5760, 8232, 8233, 8239, 8287, 12288, 65279}
      \<or> (8192 \<le> c \<and> c \<le> 8202))"

definition trim :: "jsstr \<Rightarrow> jsstr" where
  "trim s = rev (dropWhile white_space (rev (dropWhile white_space s)))"

section \<open>Files, requests and responses\<close>

text \<open>
  What a file slot or a form field can hold: a file that the browser handed over (picked
  or dropped by the operator), with its name and size, or a plain object built by the
  code, with its properties.
\<close>

datatype file_obj = BrowserFile jsstr nat | PlainObject "(jsstr \<times> jsval) list"

text \<open>The property read \<open>file.isMock\<close>.\<close>

fun isMock :: "file_obj \<Rightarrow> jsval" where
  "isMock (BrowserFile n sz) = VUndef"
| "isMock (PlainObject ps) = (case map_of ps (js ''isMock'') of None \<Rightarrow> VUndef | Some v \<Rightarrow> v)"

text \<open>An entry of a \<open>FormData\<close>: a file, or a value appended as a string.\<close>

datatype form_value = FileValue file_obj | StringValue jsstr

type_synonym form_data = "(jsstr \<times> form_value) list"

text \<open>The options object passed to \<open>fetch\<close> and the request that results.\<close>

record options =
  http_method :: "jsstr option"
  body :: "form_data option"

record request =
  url :: jsstr
  opts :: options

text \<open>
  A response, as far as the code reads it: the status, the outcome of \<open>response.json()\<close>
  (\<open>None\<close> when the body is not JSON), the \<open>Content-Disposition\<close> header (\<open>None\<close> is
  \<open>null\<close>) and the size of the body as a blob.
\<close>

record response =
  status :: nat
  json :: "jsval option"
  content_disposition :: "jsstr option"
  blob_size :: nat

text \<open>\<open>response.ok\<close>\<close>

definition ok :: "response \<Rightarrow> bool" where
  "ok r = (200 \<le> status r \<and> status r \<le> 299)"

text \<open>The outcome of a \<open>fetch\<close>: the promise rejects, or resolves to a response.\<close>

datatype fetch_result = Rejected | Resolved response

section \<open>File names from Content-Disposition\<close>

text \<open>
  The three patterns of the source. In the third the two outer non-capturing groups
  group nothing more than the alternatives themselves.

  \<^item> \<open>downloadFile\<close>:
    \<^verbatim>\<open>/filename\*=(?:UTF-8'')?([^;]+)|filename="([^"]+)"|filename=([^;]+)/i\<close>
  \<^item> \<open>handleDownloadTemplate\<close>:
    \<^verbatim>\<open>/filename\*=(?:utf-8'')?([^;]+)|filename="([^"]+)"|filename=([^;]+)/i\<close>
  \<^item> \<open>handleDownloadFinalFile\<close>:
    \<^verbatim>\<open>/(?:filename\*=(?:UTF-8'')?([^;]+))|(?:filename="([^"]+)")|filename=([^;]+)/i\<close>
\<close>

definition filename_regex :: "jsstr \<Rightarrow> regex" where
  "filename_regex charset =
     Alt (Seq (Lit (js ''filename*=''))
            (Seq (Opt (Lit (charset @ [39, 39]))) (Cap 1 (Many1_except 59))))
      (Alt (Seq (Lit (js ''filename='' @ [34])) (Seq (Cap 2 (Many1_except 34)) (Lit [34])))
           (Seq (Lit (js ''filename='')) (Cap 3 (Many1_except 59))))"

definition hook_regex :: regex where
  "hook_regex = filename_regex (js ''UTF-8'')"

definition template_regex :: regex where
  "template_regex = filename_regex (js ''utf-8'')"

definition final_regex :: regex where
  "final_regex = filename_regex (js ''UTF-8'')"

text \<open>
  The block that each of the three download functions holds, the same text in each but
  for the pattern: the file name starts as the default and is replaced when the header
  is there (and not empty) and the pattern matches. A capture counts as a condition
  when it is a string that is not empty (\<open>undefined\<close> and the empty string are falsy).
\<close>

definition filename_from :: "regex \<Rightarrow> jsstr option \<Rightarrow> jsstr \<Rightarrow> jsstr" where
  "filename_from re contentDisposition dflt =
     (case contentDisposition of
        None \<Rightarrow> dflt
      | Some h \<Rightarrow>
          if h = [] then dflt
          else (case str_match re h of
              None \<Rightarrow> dflt
            | Some filenameMatch \<Rightarrow>
                (case filenameMatch 1 of
                   Some (c # cs) \<Rightarrow>
                     (case decodeURIComponent (c # cs) of Some d \<Rightarrow> d | None \<Rightarrow> c # cs)
                 | _ \<Rightarrow>
                     (case filenameMatch 2 of
                        Some (c # cs) \<Rightarrow> c # cs
                      | _ \<Rightarrow>
                          (case filenameMatch 3 of
                             Some (c # cs) \<Rightarrow> trim (c # cs)
                           | _ \<Rightarrow> dflt)))))"

section \<open>The HTTP client hook\<close>

text \<open>
  What a call does besides returning: the writes to the hook's two state cells
  (\<open>setLoading\<close>, \<open>setError\<close>), a request handed to \<open>fetch\<close>, a click on a temporary
  anchor that saves a blob under a file name, a toast, and a line on the console.
  The effects of a call are listed in the order in which they happen.
\<close>

datatype effect =
    SetLoading bool
  | SetError "message option"
  | Fetch request
  | Download jsstr
  | Toast jsstr message
  | Console_error
  | Console_log

text \<open>
  \<open>makeRequest\<close> of \<open>useApi.js\<close>. The answer of the network to the one \<open>fetch\<close> of the
  call is a parameter. The result is the list of effects and the returned value, or the
  error raised.
\<close>

definition makeRequest ::
  "platform \<Rightarrow> jsstr \<Rightarrow> options \<Rightarrow> fetch_result \<Rightarrow> effect list \<times> (js_error + jsval)" where
  "makeRequest p endpoint options fr =
     (let tried =
        (case fr of
           Rejected \<Rightarrow> Inl TypeError_fetch
         | Resolved response \<Rightarrow>
             (case json response of
                None \<Rightarrow> Inl SyntaxError_json
              | Some data \<Rightarrow>
                  if \<not> ok response then
                    (case get_prop data (js ''error'') of
                       Inl e \<Rightarrow> Inl e
                     | Inr data_error \<Rightarrow>
                         Inl (Error (to_string p
                           (js_or data_error
                              (VStr (js ''Erreur HTTP: '' @ dec (status response)))))))
                  else Inr data))
      in ([SetLoading True, SetError None,
           Fetch \<lparr> url = API_BASE_URL p @ endpoint, opts = options \<rparr>]
          @ (case tried of Inl err \<Rightarrow> [SetError (Some (message_of err))] | Inr _ \<Rightarrow> [])
          @ [SetLoading False],
          tried))"

text \<open>
  \<open>formData.append(name, value)\<close>: a file that the browser handed over goes in as a
  file, anything else as its string.
\<close>

fun append_file :: "file_obj \<Rightarrow> form_value" where
  "append_file (BrowserFile n sz) = FileValue (BrowserFile n sz)"
| "append_file (PlainObject ps) = StringValue (js ''[object Object]'')"

definition uploadFile ::
  "platform \<Rightarrow> file_obj \<Rightarrow> fetch_result \<Rightarrow> effect list \<times> (js_error + jsval)" where
  "uploadFile p file fr =
     makeRequest p (js ''/upload'')
       \<lparr> http_method = Some (js ''POST''), body = Some [(js ''file'', append_file file)] \<rparr> fr"

text \<open>The third argument is \<open>None\<close> when the caller passes no strategy.\<close>

definition processFile ::
  "platform \<Rightarrow> file_obj \<Rightarrow> jsstr \<Rightarrow> jsstr option \<Rightarrow> fetch_result
     \<Rightarrow> effect list \<times> (js_error + jsval)" where
  "processFile p file sessionId strategy fr =
     makeRequest p (js ''/process'')
       \<lparr> http_method = Some (js ''POST''),
         body = Some [(js ''file'', append_file file),
                      (js ''session_id'', StringValue sessionId),
                      (js ''strategy'',
                         StringValue (case strategy of None \<Rightarrow> js ''FIFO'' | Some s \<Rightarrow> s))] \<rparr>
       fr"

definition getSessions :: "platform \<Rightarrow> fetch_result \<Rightarrow> effect list \<times> (js_error + jsval)" where
  "getSessions p fr = makeRequest p (js ''/sessions'') \<lparr> http_method = None, body = None \<rparr> fr"

definition deleteSession ::
  "platform \<Rightarrow> jsstr \<Rightarrow> fetch_result \<Rightarrow> effect list \<times> (js_error + jsval)" where
  "deleteSession p sessionId fr =
     makeRequest p (js ''/sessions/'' @ sessionId)
       \<lparr> http_method = Some (js ''DELETE''), body = None \<rparr> fr"

definition getHealth :: "platform \<Rightarrow> fetch_result \<Rightarrow> effect list \<times> (js_error + jsval)" where
  "getHealth p fr = makeRequest p (js ''/health'') \<lparr> http_method = None, body = None \<rparr> fr"

text \<open>
  \<open>downloadFile\<close>: its own \<open>fetch\<close>, no options. On success it returns the file name and
  the size of the blob.
\<close>

definition downloadFile ::
  "platform \<Rightarrow> jsstr \<Rightarrow> jsstr \<Rightarrow> fetch_result
     \<Rightarrow> effect list \<times> (js_error + jsstr \<times> nat)" where
  "downloadFile p type sessionId fr =
     (let req = \<lparr> url = API_BASE_URL p @ js ''/download/'' @ type @ js ''/'' @ sessionId,
                  opts = \<lparr> http_method = None, body = None \<rparr> \<rparr>
      in case fr of
           Rejected \<Rightarrow> ([Fetch req], Inl TypeError_fetch)
         | Resolved response \<Rightarrow>
             if \<not> ok response then
               (case json response of
                  None \<Rightarrow> ([Fetch req], Inl SyntaxError_json)
                | Some errorData \<Rightarrow>
                    (case get_prop errorData (js ''error'') of
                       Inl e \<Rightarrow> ([Fetch req], Inl e)
                     | Inr data_error \<Rightarrow>
                         ([Fetch req],
                          Inl (Error (to_string p
                            (js_or data_error
                               (VStr (js ''Erreur de t'' @ [233] @ js ''l'' @ [233]
                                       @ js ''chargement''))))))))
             else
               (let filename =
                      filename_from hook_regex (content_disposition response)
                        (type @ js ''_'' @ sessionId @ js ''.''
                           @ (if type = js ''template'' then js ''xlsx'' else js ''csv''))
                in ([Fetch req, Download filename], Inr (filename, blob_size response))))"

text \<open>
  The hook's state: the \<open>loading\<close> flag and the \<open>error\<close> message (\<open>None\<close> is \<open>null\<close>),
  and what a list of effects makes of it.
\<close>

type_synonym hook_state = "bool \<times> message option"

fun hook_step :: "hook_state \<Rightarrow> effect \<Rightarrow> hook_state" where
  "hook_step (l, e) (SetLoading b) = (b, e)"
| "hook_step (l, e) (SetError m) = (l, m)"
| "hook_step (l, e) _ = (l, e)"

definition hook_after :: "effect list \<Rightarrow> hook_state \<Rightarrow> hook_state" where
  "hook_after effects s = foldl hook_step s effects"

subsection \<open>The request primitive\<close>

text \<open>The text of \<open>dec\<close> is made of decimal digits and reads back as the number.\<close>

lemma dec_digits: "c \<in> set (dec n) \<Longrightarrow> 48 \<le> c \<and> c \<le> 57"
proof (induction n arbitrary: c rule: dec.induct)
  case (1 n)
  show ?case
  proof (cases "n < 10")
    case True
    with "1.prems" show ?thesis by (simp add: dec.simps [of n])
  next
    case False
    with "1.prems" have "c \<in> set (dec (n div 10)) \<or> c = 48 + n mod 10"
      by (auto simp add: dec.simps [of n])
    then show ?thesis
    proof
      assume "c \<in> set (dec (n div 10))"
      with False "1.IH" show ?thesis by simp
    next
      assume "c = 48 + n mod 10"
      then show ?thesis by simp
    qed
  qed
qed

lemma dec_value: "foldl (\<lambda>a d. 10 * a + (d - 48)) 0 (dec n) = n"
proof (induction n rule: dec.induct)
  case (1 n)
  show ?case
  proof (cases "n < 10")
    case True
    then show ?thesis by (simp add: dec.simps [of n])
  next
    case False
    with "1.IH" show ?thesis by (simp add: dec.simps [of n])
  qed
qed

text \<open>
  C1, as the code has it. For every call of the request primitive whose \<open>fetch\<close>
  resolves to a response with a JSON body: when the status is not successful and the
  \<open>error\<close> field of the body is a string that is not empty, the primitive raises an error
  whose message is exactly that string; when the status is not successful and the body
  (not \<open>null\<close>) has no \<open>error\<close> field, it raises an error whose message is
  \<open>Erreur HTTP: \<close> followed by the decimal digits of the status; when the status is
  successful, it returns the parsed body.
\<close>

theorem makeRequest_result:
  "(\<not> ok r \<and> json r = Some d \<and> get_prop d (js ''error'') = Inr (VStr s) \<and> s \<noteq> []
      \<longrightarrow> snd (makeRequest p endpoint options (Resolved r)) = Inl (Error s))
   \<and> (\<not> ok r \<and> json r = Some d \<and> get_prop d (js ''error'') = Inr VUndef
      \<longrightarrow> snd (makeRequest p endpoint options (Resolved r))
            = Inl (Error (js ''Erreur HTTP: '' @ dec (status r))))
   \<and> (ok r \<and> json r = Some d
      \<longrightarrow> snd (makeRequest p endpoint options (Resolved r)) = Inr d)"
  by (simp add: makeRequest_def js_or_def)

text \<open>
  A 404 whose body is \<open>{"error": "Session introuvable"}\<close> raises with that text; a 500
  whose body is \<open>{}\<close> raises with \<open>Erreur HTTP: 500\<close>; a 200 returns its body.
\<close>

theorem makeRequest_result_witness:
  "snd (makeRequest example_platform (js ''/sessions/abc123'')
          \<lparr> http_method = Some (js ''DELETE''), body = None \<rparr>
          (Resolved \<lparr> status = 404,
             json = Some (VObj [(js ''error'', VStr (js ''Session introuvable''))]),
             content_disposition = None, blob_size = 31 \<rparr>))
     = Inl (Error (js ''Session introuvable''))
   \<and> snd (makeRequest example_platform (js ''/sessions'') \<lparr> http_method = None, body = None \<rparr>
          (Resolved \<lparr> status = 500, json = Some (VObj []),
             content_disposition = None, blob_size = 2 \<rparr>))
     = Inl (Error (js ''Erreur HTTP: 500''))
   \<and> snd (makeRequest example_platform (js ''/sessions'') \<lparr> http_method = None, body = None \<rparr>
          (Resolved \<lparr> status = 200, json = Some (VObj [(js ''sessions'', VArr [])]),
             content_disposition = None, blob_size = 15 \<rparr>))
     = Inr (VObj [(js ''sessions'', VArr [])])"
proof -
  let ?r1 = "\<lparr> status = 404,
             json = Some (VObj [(js ''error'', VStr (js ''Session introuvable''))]),
             content_disposition = None, blob_size = 31 \<rparr>"
  let ?r2 = "\<lparr> status = 500, json = Some (VObj []),
             content_disposition = None, blob_size = 2 \<rparr>"
  let ?r3 = "\<lparr> status = 200, json = Some (VObj [(js ''sessions'', VArr [])]),
             content_disposition = None, blob_size = 15 \<rparr>"
  have a: "snd (makeRequest example_platform (js ''/sessions/abc123'')
          \<lparr> http_method = Some (js ''DELETE''), body = None \<rparr> (Resolved ?r1))
     = Inl (Error (js ''Session introuvable''))"
    using makeRequest_result [of ?r1 "VObj [(js ''error'', VStr (js ''Session introuvable''))]"
        "js ''Session introuvable''" example_platform "js ''/sessions/abc123''"
        "\<lparr> http_method = Some (js ''DELETE''), body = None \<rparr>"]
    by (simp add: ok_def js_def)
  have b: "snd (makeRequest example_platform (js ''/sessions'') \<lparr> http_method = None, body = None \<rparr>
          (Resolved ?r2)) = Inl (Error (js ''Erreur HTTP: 500''))"
    using makeRequest_result [of ?r2 "VObj []" "[]" example_platform "js ''/sessions''"
        "\<lparr> http_method = None, body = None \<rparr>"]
    by (simp add: ok_def dec.simps js_def)
  have c: "snd (makeRequest example_platform (js ''/sessions'') \<lparr> http_method = None, body = None \<rparr>
          (Resolved ?r3)) = Inr (VObj [(js ''sessions'', VArr [])])"
    using makeRequest_result [of ?r3 "VObj [(js ''sessions'', VArr [])]" "[]" example_platform
        "js ''/sessions''" "\<lparr> http_method = None, body = None \<rparr>"]
    by (simp add: ok_def)
  from a b c show ?thesis by simp
qed

text \<open>
  C1 as stated fails where the \<open>error\<close> field is the empty string: \<open>data.error || ...\<close>
  takes the empty string for absent. A 500 whose body is \<open>{"error": ""}\<close> has an \<open>error\<close>
  string field, and the message raised is not that string but \<open>Erreur HTTP: 500\<close>.
\<close>

theorem makeRequest_empty_error_counterexample:
  "get_prop (VObj [(js ''error'', VStr [])]) (js ''error'') = Inr (VStr [])
   \<and> \<not> ok \<lparr> status = 500, json = Some (VObj [(js ''error'', VStr [])]),
            content_disposition = None, blob_size = 12 \<rparr>
   \<and> snd (makeRequest example_platform (js ''/health'') \<lparr> http_method = None, body = None \<rparr>
        (Resolved \<lparr> status = 500, json = Some (VObj [(js ''error'', VStr [])]),
                    content_disposition = None, blob_size = 12 \<rparr>))
     = Inl (Error (js ''Erreur HTTP: 500''))
   \<and> js ''Erreur HTTP: 500'' \<noteq> []"
  by (simp add: makeRequest_def js_or_def ok_def dec.simps js_def)

subsection \<open>Loading flag and error message around a call\<close>

text \<open>
  The shape of a call that clears the error and raises the loading flag before its
  request and lowers the flag as its last effect, with at most a write of the error
  message in between.
\<close>

definition bracketed :: "effect list \<Rightarrow> bool" where
  "bracketed es =
     (\<exists>req mid. es = [SetLoading True, SetError None, Fetch req] @ mid @ [SetLoading False]
        \<and> (mid = [] \<or> (\<exists>m. mid = [SetError (Some m)])))"

text \<open>An operation that is one call of the request primitive.\<close>

definition through_makeRequest ::
  "platform \<Rightarrow> fetch_result \<Rightarrow> effect list \<times> (js_error + jsval) \<Rightarrow> bool" where
  "through_makeRequest p fr out = (\<exists>endpoint options. out = makeRequest p endpoint options fr)"

lemma makeRequest_bracketed: "bracketed (fst (makeRequest p endpoint options fr))"
  unfolding bracketed_def makeRequest_def Let_def
  by (auto split: sum.splits fetch_result.splits option.splits)

lemma bracketed_loading:
  assumes "bracketed es"
  shows "hook_after (take 2 es) s = (True, None) \<and> fst (hook_after es s) = False"
proof -
  from assms obtain req mid where
    es: "es = [SetLoading True, SetError None, Fetch req] @ mid @ [SetLoading False]"
    and mid: "mid = [] \<or> (\<exists>m. mid = [SetError (Some m)])"
    unfolding bracketed_def by blast
  obtain l e where s: "s = (l, e)" by (cases s)
  from mid show ?thesis
  proof
    assume "mid = []"
    with es s show ?thesis by (simp add: hook_after_def)
  next
    assume "\<exists>m. mid = [SetError (Some m)]"
    then obtain m where "mid = [SetError (Some m)]" ..
    with es s show ?thesis by (simp add: hook_after_def)
  qed
qed

lemma downloadFile_effects:
  "e \<in> set (fst (downloadFile p type sessionId fr)) \<Longrightarrow> (\<exists>req. e = Fetch req) \<or> (\<exists>n. e = Download n)"
  unfolding downloadFile_def Let_def
  by (auto split: sum.splits fetch_result.splits option.splits if_splits)

lemma hook_after_downloadFile: "hook_after (fst (downloadFile p type sessionId fr)) s = s"
proof -
  have "\<forall>e \<in> set es. (\<exists>req. e = Fetch req) \<or> (\<exists>n. e = Download n) \<Longrightarrow> foldl hook_step s es = s"
    for es
    by (induction es arbitrary: s) (auto simp add: split_paired_all)
  then show ?thesis
    unfolding hook_after_def using downloadFile_effects by blast
qed

lemma downloadFile_not_bracketed: "\<not> bracketed (fst (downloadFile p type sessionId fr))"
proof
  assume "bracketed (fst (downloadFile p type sessionId fr))"
  then have "SetLoading True \<in> set (fst (downloadFile p type sessionId fr))"
    unfolding bracketed_def by auto
  then show False using downloadFile_effects by blast
qed

text \<open>
  C5, as the code has it. The operations \<open>uploadFile\<close>, \<open>processFile\<close>, \<open>getSessions\<close>,
  \<open>deleteSession\<close> and \<open>getHealth\<close> are each one call of the request primitive; around each
  the error is cleared and the loading flag set before the request, and the flag is
  false after the call, whether it returns or raises. \<open>downloadFile\<close> does not go through
  the primitive: it leaves the loading flag and the error message as they were.
\<close>

theorem hook_operations_loading_error:
  "(\<forall>out \<in> {uploadFile p file fr, processFile p file sessionId strategy fr, getSessions p fr,
              deleteSession p sessionId fr, getHealth p fr}.
       through_makeRequest p fr out
       \<and> bracketed (fst out)
       \<and> hook_after (take 2 (fst out)) s = (True, None)
       \<and> fst (hook_after (fst out) s) = False)
   \<and> hook_after (fst (downloadFile p type sessionId fr)) s = s
   \<and> \<not> bracketed (fst (downloadFile p type sessionId fr))"
proof -
  have "through_makeRequest p fr out \<Longrightarrow>
        bracketed (fst out) \<and> hook_after (take 2 (fst out)) s = (True, None)
        \<and> fst (hook_after (fst out) s) = False" for out
    unfolding through_makeRequest_def
    using makeRequest_bracketed bracketed_loading by blast
  moreover have "through_makeRequest p fr (uploadFile p file fr)"
    "through_makeRequest p fr (processFile p file sessionId strategy fr)"
    "through_makeRequest p fr (getSessions p fr)"
    "through_makeRequest p fr (deleteSession p sessionId fr)"
    "through_makeRequest p fr (getHealth p fr)"
    unfolding through_makeRequest_def uploadFile_def processFile_def getSessions_def
      deleteSession_def getHealth_def by blast+
  ultimately show ?thesis
    using hook_after_downloadFile downloadFile_not_bracketed by blast
qed

text \<open>
  A \<open>deleteSession\<close> answered by a 404: the five effects in order, and the flag is down
  afterwards.
\<close>

theorem hook_operations_loading_error_witness:
  "fst (deleteSession example_platform (js ''abc123'')
          (Resolved \<lparr> status = 404,
             json = Some (VObj [(js ''error'', VStr (js ''Session introuvable''))]),
             content_disposition = None, blob_size = 31 \<rparr>))
     = [SetLoading True, SetError None,
        Fetch \<lparr> url = js ''http://localhost:5000/api/sessions/abc123'',
                opts = \<lparr> http_method = Some (js ''DELETE''), body = None \<rparr> \<rparr>,
        SetError (Some (Text (js ''Session introuvable''))), SetLoading False]
   \<and> bracketed (fst (deleteSession example_platform (js ''abc123'')
          (Resolved \<lparr> status = 404,
             json = Some (VObj [(js ''error'', VStr (js ''Session introuvable''))]),
             content_disposition = None, blob_size = 31 \<rparr>)))
   \<and> fst (hook_after (fst (deleteSession example_platform (js ''abc123'')
          (Resolved \<lparr> status = 404,
             json = Some (VObj [(js ''error'', VStr (js ''Session introuvable''))]),
             content_disposition = None, blob_size = 31 \<rparr>))) (False, Some (Text (js ''old'')))) = False"
proof -
  let ?fr = "Resolved \<lparr> status = 404,
             json = Some (VObj [(js ''error'', VStr (js ''Session introuvable''))]),
             content_disposition = None, blob_size = 31 \<rparr>"
  have a: "fst (deleteSession example_platform (js ''abc123'') ?fr)
     = [SetLoading True, SetError None,
        Fetch \<lparr> url = js ''http://localhost:5000/api/sessions/abc123'',
                opts = \<lparr> http_method = Some (js ''DELETE''), body = None \<rparr> \<rparr>,
        SetError (Some (Text (js ''Session introuvable''))), SetLoading False]"
    by (simp add: deleteSession_def makeRequest_def ok_def js_or_def API_BASE_URL_def
        example_platform_def js_def)
  have b: "bracketed (fst (deleteSession example_platform (js ''abc123'') ?fr))
     \<and> fst (hook_after (fst (deleteSession example_platform (js ''abc123'') ?fr))
          (False, Some (Text (js ''old'')))) = False"
    using hook_operations_loading_error [of example_platform "BrowserFile [] 0" ?fr
        "js ''abc123''" None "(False, Some (Text (js ''old'')))" "js ''template''"]
    by simp
  from a b show ?thesis by simp
qed

text \<open>
  C5 as stated fails on \<open>downloadFile\<close>: a successful download has two effects, the
  request and the save, and an error message left by an earlier call is still there
  afterwards.
\<close>

theorem downloadFile_loading_counterexample:
  "fst (downloadFile example_platform (js ''template'') (js ''abc123'')
          (Resolved \<lparr> status = 200, json = None, content_disposition = None,
             blob_size = 2048 \<rparr>))
     = [Fetch \<lparr> url = js ''http://localhost:5000/api/download/template/abc123'',
                opts = \<lparr> http_method = None, body = None \<rparr> \<rparr>,
        Download (js ''template_abc123.xlsx'')]
   \<and> hook_after (fst (downloadFile example_platform (js ''template'') (js ''abc123'')
          (Resolved \<lparr> status = 200, json = None, content_disposition = None,
             blob_size = 2048 \<rparr>))) (False, Some (Text (js ''old'')))
     = (False, Some (Text (js ''old'')))"
  by (simp add: downloadFile_def ok_def filename_from_def API_BASE_URL_def
        example_platform_def hook_after_def js_def Let_def)

section \<open>The workflow orchestrator\<close>

text \<open>
  The state cells of \<open>SageInventoryApp\<close>. A file slot holds \<open>null\<close> (\<open>None\<close>) or a
  file object. A result is \<open>null\<close> or the value stored by the code: the parsed body of a
  response, or an object built on session resumption.
\<close>

record app_state =
  originalFile :: "file_obj option"
  completedFile :: "file_obj option"
  uploadStatus :: jsstr
  processStatus :: jsstr
  uploadResult :: jsval
  processResult :: jsval
  error :: message
  currentStep :: int
  progressDetails :: jsstr

text \<open>\<open>str.endsWith(suffix)\<close>\<close>

definition endsWith :: "jsstr \<Rightarrow> jsstr \<Rightarrow> bool" where
  "endsWith s suffix =
     (length suffix \<le> length s \<and> drop (length s - length suffix) s = suffix)"

text \<open>
  \<open>createMockFile\<close>, with the value of \<open>Date.now()\<close> as a parameter. The size is \<open>None\<close>
  when the caller passes none. The orchestrator defines this helper and never calls it.
\<close>

definition createMockFile :: "nat \<Rightarrow> jsstr \<Rightarrow> nat option \<Rightarrow> file_obj" where
  "createMockFile now filename sz =
     PlainObject
       [(js ''name'', VStr filename),
        (js ''size'', VNum (of_nat (case sz of None \<Rightarrow> 0 | Some n \<Rightarrow> n))),
        (js ''type'',
           VStr (if endsWith filename (js ''.xlsx'')
                 then js ''application/vnd.openxmlformats-officedocument.spreadsheetml.sheet''
                 else js ''text/csv'')),
        (js ''lastModified'', VNum (of_nat now)),
        (js ''isMock'', VBool True)]"

text \<open>
  The tail that the error branches of the three request handlers share: the body is
  read as JSON and an error is raised with its \<open>error\<close> field, or with the fallback text.
\<close>

definition raise_from :: "platform \<Rightarrow> response \<Rightarrow> jsstr \<Rightarrow> js_error" where
  "raise_from p response fallback =
     (case json response of
        None \<Rightarrow> SyntaxError_json
      | Some errorData \<Rightarrow>
          (case get_prop errorData (js ''error'') of
             Inl e \<Rightarrow> e
           | Inr data_error \<Rightarrow> Error (to_string p (js_or data_error (VStr fallback)))))"

text \<open>\<open>handleDownloadTemplate\<close>\<close>

definition handleDownloadTemplate ::
  "platform \<Rightarrow> fetch_result \<Rightarrow> app_state \<Rightarrow> app_state \<times> effect list" where
  "handleDownloadTemplate p fr st =
     (if \<not> truthy (opt_prop (uploadResult st) (js ''session_id'')) then
        (st\<lparr> error := Text (js ''Aucune session active pour g'' @ [233] @ js ''n'' @ [233]
                                     @ js ''rer le template'') \<rparr>,
         [Toast (js ''error'') (Text (js ''Aucune session active pour g'' @ [233] @ js ''n'' @ [233]
                                        @ js ''rer le template''))])
      else
        (let session_id = to_string p (opt_prop (uploadResult st) (js ''session_id''));
             req = \<lparr> url = API_BASE_URL p @ js ''/download/template/'' @ session_id,
                      opts = \<lparr> http_method = None, body = None \<rparr> \<rparr>;
             tried =
               (case fr of
                  Rejected \<Rightarrow> Inl TypeError_fetch
                | Resolved response \<Rightarrow>
                    if ok response then
                      Inr (filename_from template_regex (content_disposition response)
                             (js ''inventaire_template_'' @ session_id @ js ''.xlsx''))
                    else
                      Inl (raise_from p response
                             (js ''Erreur lors du t'' @ [233] @ js ''l'' @ [233]
                                @ js ''chargement du template'')))
         in case tried of
              Inr filename \<Rightarrow>
                (st, [Fetch req, Download filename,
                      Toast (js ''success'') (Text (js ''Template t'' @ [233] @ js ''l'' @ [233] @ js ''charg'' @ [233]
                                                      @ js '' avec succ'' @ [232] @ js ''s !''))])
            | Inl err \<Rightarrow>
                (st\<lparr> error := message_of err \<rparr>,
                 [Fetch req, Toast (js ''error'') (message_of err), Console_error])))"

text \<open>\<open>handleDownloadFinalFile\<close>\<close>

definition handleDownloadFinalFile ::
  "platform \<Rightarrow> fetch_result \<Rightarrow> app_state \<Rightarrow> app_state \<times> effect list" where
  "handleDownloadFinalFile p fr st =
     (if \<not> truthy (opt_prop (uploadResult st) (js ''session_id'')) then
        (st\<lparr> error := Text (js ''Aucun ID de session disponible pour t'' @ [233] @ js ''l''
                                     @ [233] @ js ''charger le fichier final.'') \<rparr>,
         [Toast (js ''error'') (Text (js ''Aucun ID de session disponible pour t'' @ [233] @ js ''l''
                                        @ [233] @ js ''charger le fichier final.''))])
      else if \<not> truthy (opt_prop (processResult st) (js ''final_url'')) then
        (st\<lparr> error := Text (js ''Le fichier final n'' @ [39] @ js ''a pas '' @ [233] @ js ''t''
                                     @ [233] @ js '' g'' @ [233] @ js ''n'' @ [233] @ js ''r'' @ [233]
                                     @ js '' ou son URL est manquante.'') \<rparr>,
         [Toast (js ''error'') (Text (js ''Le fichier final n'' @ [39] @ js ''a pas '' @ [233] @ js ''t''
                                        @ [233] @ js '' g'' @ [233] @ js ''n'' @ [233] @ js ''r'' @ [233]
                                        @ js '' ou son URL est manquante.''))])
      else
        (let session_id = to_string p (opt_prop (uploadResult st) (js ''session_id''));
             req = \<lparr> url = API_BASE_URL p @ js ''/download/final/'' @ session_id,
                      opts = \<lparr> http_method = None, body = None \<rparr> \<rparr>;
             tried =
               (case fr of
                  Rejected \<Rightarrow> Inl TypeError_fetch
                | Resolved response \<Rightarrow>
                    if ok response then
                      Inr (filename_from final_regex (content_disposition response)
                             (js ''inventaire_corrige_'' @ session_id @ js ''.csv''))
                    else
                      Inl (raise_from p response
                             (js ''Erreur lors du t'' @ [233] @ js ''l'' @ [233]
                                @ js ''chargement du fichier final.'')))
         in case tried of
              Inr filename \<Rightarrow>
                (st\<lparr> error := Text [] \<rparr>,
                 [Fetch req, Download filename,
                  Toast (js ''success'') (Text (js ''Fichier final t'' @ [233] @ js ''l'' @ [233] @ js ''charg''
                                                  @ [233] @ js '' avec succ'' @ [232] @ js ''s !''))])
            | Inl err \<Rightarrow>
                (st\<lparr> error := message_of err \<rparr>,
                 [Fetch req, Toast (js ''error'') (message_of err), Console_error])))"

text \<open>\<open>handleProcessCompleted\<close>\<close>

definition handleProcessCompleted ::
  "platform \<Rightarrow> fetch_result \<Rightarrow> app_state \<Rightarrow> app_state \<times> effect list" where
  "handleProcessCompleted p fr st =
     (case completedFile st of
        None \<Rightarrow>
          (st\<lparr> error := Text (js ''Veuillez s'' @ [233] @ js ''lectionner le fichier Excel compl''
                                       @ [233] @ js ''t'' @ [233]) \<rparr>,
           [Toast (js ''error'') (Text (js ''Veuillez s'' @ [233] @ js ''lectionner le fichier Excel compl''
                                          @ [233] @ js ''t'' @ [233]))])
      | Some file \<Rightarrow>
          if \<not> truthy (opt_prop (uploadResult st) (js ''session_id'')) then
            (st\<lparr> error := Text (js ''Veuillez d'' @ [39]
                                         @ js ''abord importer et traiter le fichier original.'') \<rparr>,
             [Toast (js ''error'') (Text (js ''Veuillez d'' @ [39]
                                            @ js ''abord importer et traiter le fichier original.''))])
          else
            (let formData =
                   [(js ''file'', append_file file),
                    (js ''session_id'',
                       StringValue (to_string p (opt_prop (uploadResult st) (js ''session_id''))))];
                 st1 = st\<lparr> processStatus := js ''processing'', currentStep := 3,
                           progressDetails := js ''Calcul des '' @ [233] @ js ''carts et r'' @ [233]
                                                @ js ''partition FIFO en cours...'',
                           error := Text [] \<rparr>;
                 req = \<lparr> url = API_BASE_URL p @ js ''/process'',
                          opts = \<lparr> http_method = Some (js ''POST''), body = Some formData \<rparr> \<rparr>;
                 tried =
                   (case fr of
                      Rejected \<Rightarrow> Inl TypeError_fetch
                    | Resolved response \<Rightarrow>
                        (case json response of
                           None \<Rightarrow> Inl SyntaxError_json
                         | Some data \<Rightarrow>
                             if ok response then Inr data
                             else Inl (raise_from p response
                                         (js ''Erreur lors du calcul des '' @ [233] @ js ''carts''))))
             in case tried of
                  Inr data \<Rightarrow>
                    (st1\<lparr> processStatus := js ''success'', processResult := data,
                          currentStep := 4,
                          progressDetails := js ''Fichier final g'' @ [233] @ js ''n'' @ [233] @ js ''r'' @ [233]
                                               @ js '' et pr'' @ [234] @ js ''t au t'' @ [233] @ js ''l'' @ [233]
                                               @ js ''chargement'' \<rparr>,
                     [Fetch req, Toast (js ''success'') (Text (js ''Traitement termin'' @ [233] @ js '' avec succ'' @ [232]
                                                                 @ js ''s !''))])
                | Inl err \<Rightarrow>
                    (st1\<lparr> processStatus := js ''error'', error := message_of err,
                          processResult := VNull, progressDetails := [] \<rparr>,
                     [Fetch req, Toast (js ''error'') (message_of err)])))"

text \<open>
  \<open>handleSessionSelect\<close>. Once the first property read has succeeded the session is
  neither \<open>null\<close> nor \<open>undefined\<close>, and the later reads of its properties cannot raise:
  they are written with \<open>opt_prop\<close>.
\<close>

definition handleSessionSelect ::
  "platform \<Rightarrow> jsval \<Rightarrow> app_state \<Rightarrow> app_state \<times> effect list" where
  "handleSessionSelect p session st =
     (let st0 = st\<lparr> originalFile := None, completedFile := None, error := Text [] \<rparr>
      in case get_prop session (js ''original_filename'') of
           Inl err \<Rightarrow>
             (st0, [Toast (js ''error'')
                      (Engine_text (js ''Erreur lors de la reprise de la session: '') err)])
         | Inr original_filename \<Rightarrow>
             (let mockOriginalFile =
                    PlainObject
                      [(js ''name'', js_or original_filename (VStr (js ''Fichier original''))),
                       (js ''size'', VNum 0)];
                  status = opt_prop session (js ''status'');
                  session_id = opt_prop session (js ''id'');
                  stats = opt_prop session (js ''stats'')
              in if status = VStr (js ''template_generated'') \<or> status = VStr (js ''completed'')
                 then
                   (let st1 = st0\<lparr> originalFile := Some mockOriginalFile,
                                   uploadStatus := js ''success'',
                                   uploadResult :=
                                     VObj [(js ''session_id'', session_id),
                                           (js ''stats'',
                                              VObj [(js ''nb_articles'',
                                                       js_or (opt_prop stats (js ''nb_articles'')) (VNum 0)),
                                                    (js ''total_quantity'',
                                                       js_or (opt_prop stats (js ''total_quantity'')) (VNum 0)),
                                                    (js ''nb_lots'',
                                                       js_or (opt_prop stats (js ''nb_lots'')) (VNum 0))])] \<rparr>
                    in if status = VStr (js ''completed'') then
                         (st1\<lparr> processStatus := js ''success'', currentStep := 4,
                               progressDetails := js ''Session termin'' @ [233] @ js ''e - Fichier final disponible'',
                               processResult :=
                                 VObj [(js ''final_url'',
                                          VStr (js ''/api/download/final/'' @ to_string p session_id)),
                                       (js ''stats'',
                                          VObj [(js ''total_discrepancy'',
                                                   js_or (opt_prop stats (js ''total_discrepancy'')) (VNum 0)),
                                                (js ''adjusted_items'',
                                                   js_or (opt_prop stats (js ''adjusted_items_count'')) (VNum 0)),
                                                (js ''strategy_used'',
                                                   js_or (opt_prop stats (js ''strategy_used''))
                                                     (VStr (js ''FIFO'')))])] \<rparr>,
                          [Toast (js ''success'')
                             (Text (js ''Session '' @ to_string p session_id
                                    @ js '' reprise - Traitement termin'' @ [233]))])
                       else
                         (st1\<lparr> processStatus := js ''idle'', processResult := VNull,
                               currentStep := 1,
                               progressDetails := js ''Template disponible pour t'' @ [233] @ js ''l'' @ [233]
                                                    @ js ''chargement'' \<rparr>,
                          [Toast (js ''success'')
                             (Text (js ''Session '' @ to_string p session_id
                                    @ js '' reprise - Template disponible''))]))
                 else
                   (st0\<lparr> currentStep := 0, progressDetails := [] \<rparr>,
                    [Toast (js ''info'')
                       (Text (js ''Session '' @ to_string p session_id
                              @ js '' s'' @ [233] @ js ''lectionn'' @ [233] @ js ''e (statut: ''
                              @ to_string p status @ js '')''))])))"

section \<open>Requests to the process endpoint\<close>

text \<open>The requests among the effects of a call, in order, and the field names of a form.\<close>

definition requests :: "effect list \<Rightarrow> request list" where
  "requests es = concat (map (\<lambda>e. case e of Fetch r \<Rightarrow> [r] | _ \<Rightarrow> []) es)"

definition field_names :: "request \<Rightarrow> jsstr list" where
  "field_names r = (case body (opts r) of None \<Rightarrow> [] | Some form \<Rightarrow> map fst form)"

definition field :: "request \<Rightarrow> jsstr \<Rightarrow> form_value option" where
  "field r k = (case body (opts r) of None \<Rightarrow> None | Some form \<Rightarrow> map_of form k)"

section \<open>The session manager\<close>

text \<open>
  A button of a session row: its label, whether it is disabled, and what a click calls
  (\<open>handleDownload(session.id, type)\<close> or \<open>handleSessionSelect(session)\<close>). A disabled
  button does not react to a click.
\<close>

datatype action = HandleDownload jsstr | HandleSessionSelect

record button =
  caption :: jsstr
  disabled :: bool
  onClick :: action

text \<open>
  The buttons on the left of a session row of \<open>SessionManager.jsx\<close>, from the status of
  the session: three conditional blocks, rendered in this order.
\<close>

definition session_buttons :: "jsval \<Rightarrow> button list" where
  "session_buttons session_status =
     (if session_status = VStr (js ''template_generated'') then
        [\<lparr> caption = js ''Template'', disabled = False,
           onClick = HandleDownload (js ''template'') \<rparr>,
         \<lparr> caption = js ''Reprendre'', disabled = False, onClick = HandleSessionSelect \<rparr>]
      else [])
     @ (if session_status = VStr (js ''completed'') then
          [\<lparr> caption = js ''Template'', disabled = False,
             onClick = HandleDownload (js ''template'') \<rparr>,
           \<lparr> caption = js ''Final'', disabled = False,
             onClick = HandleDownload (js ''final'') \<rparr>,
           \<lparr> caption = js ''Reprendre'', disabled = False, onClick = HandleSessionSelect \<rparr>]
        else [])
     @ (if session_status \<notin> set [VStr (js ''template_generated''), VStr (js ''completed'')] then
          [\<lparr> caption =
               (if session_status = VStr (js ''error'') then js ''Erreur''
                else if session_status = VStr (js ''processing'') then js ''En cours...''
                else js ''Reprendre''),
             disabled = (session_status = VStr (js ''error'') \<or> session_status = VStr (js ''processing'')),
             onClick = HandleSessionSelect \<rparr>]
        else [])"

section \<open>The session dashboard\<close>

text \<open>
  The two state cells of \<open>SessionDashboard\<close> that the bulk action reads and writes: the
  loaded sessions, each a JSON object given by its properties, and the identifiers
  ticked in the list. An identifier is a string.
\<close>

record dashboard_state =
  sessions :: "(jsstr \<times> jsval) list list"
  selectedSessions :: "jsstr list"

text \<open>\<open>selectedSessions.includes(s.id)\<close>: only a string can be in the selection.\<close>

definition selected :: "jsstr list \<Rightarrow> (jsstr \<times> jsval) list \<Rightarrow> bool" where
  "selected ids s = (case map_of s (js ''id'') of Some (VStr i) \<Rightarrow> i \<in> set ids | _ \<Rightarrow> False)"

text \<open>
  The loop \<open>for (const sessionId of selectedSessions) await deleteSession(sessionId)\<close>.
  The answer of the network to the request number \<open>k\<close> of the action is \<open>net k\<close>. The
  loop stops at the first call that raises, and gives that error.
\<close>

fun delete_each ::
  "platform \<Rightarrow> (nat \<Rightarrow> fetch_result) \<Rightarrow> nat \<Rightarrow> jsstr list \<Rightarrow> effect list \<times> js_error option" where
  "delete_each p net k [] = ([], None)"
| "delete_each p net k (sessionId # rest) =
     (case deleteSession p sessionId (net k) of
        (es, Inl err) \<Rightarrow> (es, Some err)
      | (es, Inr _) \<Rightarrow>
          (case delete_each p net (Suc k) rest of (es', r) \<Rightarrow> (es @ es', r)))"

text \<open>\<open>handleBulkAction\<close>\<close>

definition handleBulkAction ::
  "platform \<Rightarrow> (nat \<Rightarrow> fetch_result) \<Rightarrow> jsstr \<Rightarrow> dashboard_state
     \<Rightarrow> dashboard_state \<times> effect list" where
  "handleBulkAction p net action st =
     (if selectedSessions st = [] then (st, [])
      else if action = js ''delete'' then
        (case delete_each p net 0 (selectedSessions st) of
           (es, None) \<Rightarrow>
             (st\<lparr> sessions := filter (\<lambda>s. \<not> selected (selectedSessions st) s) (sessions st),
                  selectedSessions := [] \<rparr>,
              es)
         | (es, Some err) \<Rightarrow> (st, es @ [Console_error]))
      else if action = js ''archive'' then (st\<lparr> selectedSessions := [] \<rparr>, [Console_log])
      else (st\<lparr> selectedSessions := [] \<rparr>, []))"

text \<open>A call of the request primitive returns on this answer: a successful status and a JSON body.\<close>

definition succeeds :: "fetch_result \<Rightarrow> bool" where
  "succeeds fr = (case fr of Rejected \<Rightarrow> False | Resolved r \<Rightarrow> ok r \<and> json r \<noteq> None)"

section \<open>The file name of a download\<close>

subsection \<open>The leftmost file name parameter\<close>

text \<open>
  The reading of a \<open>Content-Disposition\<close> header in direct terms, without patterns, to
  be compared with the matching that the code does. A parameter is one of three forms,
  with the text it carries: \<open>filename*=\<close>, quoted \<open>filename="..."\<close>, bare \<open>filename=\<close>.
\<close>

datatype param = Extended jsstr | Quoted jsstr | Bare jsstr

text \<open>The text up to the first occurrence of a code unit.\<close>

definition upto :: "nat \<Rightarrow> jsstr \<Rightarrow> jsstr" where
  "upto x s = takeWhile (\<lambda>c. c \<noteq> x) s"

text \<open>
  Behind \<open>filename*=\<close>: the text up to the next semicolon, after the charset prefix
  \<open>UTF-8''\<close> when that leaves a text that is not empty, else with the prefix.
\<close>

definition ext_value :: "jsstr \<Rightarrow> param option" where
  "ext_value v =
     (case lit_match (js ''utf-8'' @ [39, 39]) v of
        Some w \<Rightarrow> if upto 59 w \<noteq> [] then Some (Extended (upto 59 w))
                  else Some (Extended (upto 59 v))
      | None \<Rightarrow> if upto 59 v \<noteq> [] then Some (Extended (upto 59 v)) else None)"

text \<open>Behind \<open>filename=\<close>: the text up to the next semicolon.\<close>

definition bare_value :: "jsstr \<Rightarrow> param option" where
  "bare_value v = (if upto 59 v \<noteq> [] then Some (Bare (upto 59 v)) else None)"

text \<open>
  Behind \<open>filename=\<close>, the quoted form first: a double quote, a text without double
  quote that is not empty, and a closing double quote. Otherwise the bare form.
\<close>

definition plain_value :: "jsstr \<Rightarrow> param option" where
  "plain_value v =
     (case v of
        [] \<Rightarrow> None
      | c # q \<Rightarrow>
          if c = 34 \<and> upto 34 q \<noteq> [] \<and> 34 \<in> set q then Some (Quoted (upto 34 q))
          else bare_value v)"

text \<open>The parameter that starts at the head of a text, any letter in either case.\<close>

definition param_at :: "jsstr \<Rightarrow> param option" where
  "param_at s =
     (case lit_match (js ''filename'') s of
        None \<Rightarrow> None
      | Some r \<Rightarrow>
          (case lit_match (js ''*='') r of
             Some v \<Rightarrow> ext_value v
           | None \<Rightarrow>
               (case lit_match (js ''='') r of
                  Some v \<Rightarrow> plain_value v
                | None \<Rightarrow> None)))"

text \<open>The leftmost parameter of a header.\<close>

fun first_param :: "jsstr \<Rightarrow> param option" where
  "first_param [] = None"
| "first_param (a # t) =
     (case param_at (a # t) of None \<Rightarrow> first_param t | Some q \<Rightarrow> Some q)"

text \<open>
  The file name that the leftmost parameter gives: the percent-decoded text of
  \<open>filename*=\<close>, or its raw text when the decoding fails; the text between the quotes;
  the trimmed bare text. Without a parameter, the default.
\<close>

definition leftmost_filename :: "jsstr \<Rightarrow> jsstr \<Rightarrow> jsstr" where
  "leftmost_filename h dflt =
     (case first_param h of
        None \<Rightarrow> dflt
      | Some (Extended v) \<Rightarrow> (case decodeURIComponent v of Some d \<Rightarrow> d | None \<Rightarrow> v)
      | Some (Quoted v) \<Rightarrow> v
      | Some (Bare v) \<Rightarrow> trim v)"

subsection \<open>The pattern matching of the code reads the leftmost parameter\<close>

text \<open>The captures that a parameter leaves: group 1, 2 or 3.\<close>

fun caps_of :: "param \<Rightarrow> captures" where
  "caps_of (Extended v) = [1 \<mapsto> v]"
| "caps_of (Quoted v) = [2 \<mapsto> v]"
| "caps_of (Bare v) = [3 \<mapsto> v]"

fun first_caps :: "(jsstr \<times> jsstr \<times> captures) list \<Rightarrow> captures option" where
  "first_caps [] = None"
| "first_caps ((m, rest, c) # _) = Some c"

lemma first_match_caps: "first_match r s = first_caps (rmatch r s Map.empty)"
  by (auto simp add: first_match_def split: list.splits)

lemma first_caps_append:
  "first_caps (xs @ ys) = (case first_caps xs of None \<Rightarrow> first_caps ys | Some c \<Rightarrow> Some c)"
  by (cases xs) auto

lemma first_caps_map_keep:
  assumes "\<And>y. snd (snd (f y)) = snd (snd y)"
  shows "first_caps (map f xs) = first_caps xs"
proof (cases xs)
  case Nil
  then show ?thesis by simp
next
  case (Cons y ys)
  obtain a b c where fy: "f y = (a, b, c)" by (cases "f y") auto
  obtain m r c' where y: "y = (m, r, c')" by (cases y) auto
  from assms [of y] fy y have "c = c'" by simp
  with Cons fy y show ?thesis by simp
qed

lemma lit_match_append:
  "lit_match (l @ l') s = (case lit_match l s of None \<Rightarrow> None | Some r \<Rightarrow> lit_match l' r)"
  by (induction l s rule: lit_match.induct) auto

lemma lit_match_canon: "map canon l = map canon l' \<Longrightarrow> lit_match l s = lit_match l' s"
proof (induction l s arbitrary: l' rule: lit_match.induct)
  case (1 s)
  then show ?case by simp
next
  case (2 p ps)
  then show ?case by (cases l') auto
next
  case (3 p ps c cs)
  then show ?case by (cases l') auto
qed

lemma runs_nil: "runs x s = [] \<longleftrightarrow> takeWhile (\<lambda>c. c \<noteq> x) s = []"
  by (cases s) auto

lemma runs_first:
  "runs x s \<noteq> [] \<Longrightarrow>
   hd (runs x s) = (takeWhile (\<lambda>c. c \<noteq> x) s, dropWhile (\<lambda>c. c \<noteq> x) s)"
proof (induction s)
  case Nil
  then show ?case by simp
next
  case (Cons c cs)
  from Cons.prems have cx: "c \<noteq> x" by (auto split: if_splits)
  show ?case
  proof (cases "runs x cs = []")
    case True
    then have "takeWhile (\<lambda>c. c \<noteq> x) cs = []" by (simp add: runs_nil)
    moreover from this have "dropWhile (\<lambda>c. c \<noteq> x) cs = cs"
      by (metis append_Nil takeWhile_dropWhile_id)
    ultimately show ?thesis using cx True by simp
  next
    case False
    with Cons.IH have "hd (runs x cs) = (takeWhile (\<lambda>c. c \<noteq> x) cs, dropWhile (\<lambda>c. c \<noteq> x) cs)"
      by simp
    with False cx show ?thesis by (simp add: hd_append hd_map)
  qed
qed

lemma first_caps_runs:
  "first_caps (map (\<lambda>(u, r). (u, r, c(n \<mapsto> u))) (runs x s)) =
     (if takeWhile (\<lambda>c. c \<noteq> x) s = [] then None
      else Some (c(n \<mapsto> takeWhile (\<lambda>c. c \<noteq> x) s)))"
proof (cases "runs x s")
  case Nil
  then show ?thesis using runs_nil [of x s] by simp
next
  case (Cons y ys)
  then have "runs x s \<noteq> []" by simp
  from runs_first [OF this] Cons
  have "y = (takeWhile (\<lambda>c. c \<noteq> x) s, dropWhile (\<lambda>c. c \<noteq> x) s)" by simp
  moreover from \<open>runs x s \<noteq> []\<close> have "takeWhile (\<lambda>c. c \<noteq> x) s \<noteq> []" by (simp add: runs_nil)
  ultimately show ?thesis using Cons by simp
qed

definition closes :: "nat \<Rightarrow> jsstr \<times> jsstr \<Rightarrow> bool" where
  "closes x = (\<lambda>(u, r). case r of [] \<Rightarrow> False | d # _ \<Rightarrow> d = x)"

lemma runs_closing:
  "filter (closes x) (runs x s) =
     (if takeWhile (\<lambda>c. c \<noteq> x) s \<noteq> [] \<and> x \<in> set s
      then [(takeWhile (\<lambda>c. c \<noteq> x) s, dropWhile (\<lambda>c. c \<noteq> x) s)] else [])"
proof (induction s)
  case Nil
  then show ?case by simp
next
  case (Cons c cs)
  show ?case
  proof (cases "c = x")
    case True
    then show ?thesis by simp
  next
    case False
    have shift: "filter (closes x) (map (\<lambda>(u, r). (c # u, r)) (runs x cs)) =
       map (\<lambda>(u, r). (c # u, r)) (filter (closes x) (runs x cs))"
      by (induction "runs x cs") (auto simp add: closes_def filter_map comp_def case_prod_unfold)
    show ?thesis
    proof (cases cs)
      case Nil
      with False show ?thesis by (simp add: closes_def)
    next
      case (Cons d ds)
      show ?thesis
      proof (cases "d = x")
        case True
        with False Cons show ?thesis by (simp add: closes_def)
      next
        case dx: False
        have "filter (closes x) (runs x (c # cs)) =
           map (\<lambda>(u, r). (c # u, r)) (filter (closes x) (runs x cs))"
          using False dx Cons shift by (simp add: closes_def)
        also have "\<dots> = (if x \<in> set cs
            then [(c # takeWhile (\<lambda>c. c \<noteq> x) cs, dropWhile (\<lambda>c. c \<noteq> x) cs)] else [])"
          using Cons.IH dx Cons by simp
        finally show ?thesis using False dx Cons by simp
      qed
    qed
  qed
qed

lemma concat_map_filter:
  "(\<And>y. \<not> P y \<Longrightarrow> f y = []) \<Longrightarrow> concat (map f xs) = concat (map f (filter P xs))"
  by (induction xs) auto


lemma canon_nonletter: "x < 65 \<Longrightarrow> (canon x = canon d) = (d = x)"
  by (auto simp add: canon_def)

lemma first_caps_Alt:
  "first_caps (rmatch (Alt p q) s c) =
     (case first_caps (rmatch p s c) of None \<Rightarrow> first_caps (rmatch q s c) | Some x \<Rightarrow> Some x)"
  by (simp add: first_caps_append)

lemma first_caps_Seq_Lit:
  "first_caps (rmatch (Seq (Lit l) q) s c) =
     (case lit_match l s of None \<Rightarrow> None | Some r \<Rightarrow> first_caps (rmatch q r c))"
  by (simp add: first_caps_map_keep case_prod_unfold split: option.splits)

lemma first_caps_Seq_Opt_Lit:
  "first_caps (rmatch (Seq (Opt (Lit l)) q) s c) =
     (case lit_match l s of
        None \<Rightarrow> first_caps (rmatch q s c)
      | Some w \<Rightarrow>
          (case first_caps (rmatch q w c) of
             None \<Rightarrow> first_caps (rmatch q s c) | Some x \<Rightarrow> Some x))"
  by (simp add: first_caps_append first_caps_map_keep case_prod_unfold split: option.splits)

lemma rmatch_Cap_Many1:
  "rmatch (Cap n (Many1_except x)) s c = map (\<lambda>(u, r). (u, r, c(n \<mapsto> u))) (runs x s)"
  by (simp add: comp_def case_prod_unfold)

lemma first_caps_Cap_Many1:
  "first_caps (rmatch (Cap n (Many1_except x)) s c) =
     (if takeWhile (\<lambda>c. c \<noteq> x) s = [] then None
      else Some (c(n \<mapsto> takeWhile (\<lambda>c. c \<noteq> x) s)))"
  unfolding rmatch_Cap_Many1 by (rule first_caps_runs)

lemma first_caps_quoted:
  assumes "x < 65"
  shows "first_caps (rmatch (Seq (Cap n (Many1_except x)) (Lit [x])) s c) =
     (if takeWhile (\<lambda>c. c \<noteq> x) s \<noteq> [] \<and> x \<in> set s
      then Some (c(n \<mapsto> takeWhile (\<lambda>c. c \<noteq> x) s)) else None)"
proof -
  let ?f = "\<lambda>(u, r). case lit_match [x] r of
              None \<Rightarrow> [] | Some r' \<Rightarrow> [(u @ take 1 r, r', c(n \<mapsto> u))]"
  have "rmatch (Seq (Cap n (Many1_except x)) (Lit [x])) s c = concat (map ?f (runs x s))"
    unfolding rmatch.simps(5) rmatch_Cap_Many1
    by (auto simp add: comp_def case_prod_unfold split: option.splits
        intro!: arg_cong [where f = concat] map_cong)
  also have "\<dots> = concat (map ?f (filter (closes x) (runs x s)))"
  proof (rule concat_map_filter)
    fix y :: "jsstr \<times> jsstr"
    assume "\<not> closes x y"
    then show "?f y = []"
      using assms by (cases y; cases "snd y") (auto simp add: closes_def canon_nonletter)
  qed
  finally have eq: "rmatch (Seq (Cap n (Many1_except x)) (Lit [x])) s c =
      concat (map ?f (filter (closes x) (runs x s)))" .
  show ?thesis
  proof (cases "takeWhile (\<lambda>c. c \<noteq> x) s \<noteq> [] \<and> x \<in> set s")
    case False
    then show ?thesis unfolding eq runs_closing by auto
  next
    case True
    then have "dropWhile (\<lambda>c. c \<noteq> x) s \<noteq> []" by (simp add: dropWhile_eq_Nil_conv)
    then obtain d ds where d: "dropWhile (\<lambda>c. c \<noteq> x) s = d # ds" by (cases "dropWhile (\<lambda>c. c \<noteq> x) s") auto
    then have "d = x" using hd_dropWhile [of "\<lambda>c. c \<noteq> x" s] by (metis list.sel(1) list.distinct(1))
    with True d show ?thesis unfolding eq runs_closing by (simp add: canon_nonletter)
  qed
qed


lemma filename_literals:
  "js ''filename*='' = js ''filename'' @ js ''*=''"
  "js ''filename='' @ [34] = js ''filename'' @ (js ''='' @ [34])"
  "js ''filename='' = js ''filename'' @ js ''=''"
  by (simp_all add: js_def)

lemma star_or_equals:
  "lit_match (js ''*='') r = Some v \<Longrightarrow> lit_match (js ''='' @ q) r = None"
  by (cases r) (auto simp add: js_def canon_nonletter split: if_splits)

lemma star_not_equals:
  "lit_match (js ''*='') r = Some v \<Longrightarrow> lit_match (js ''='') r = None"
  using star_or_equals [of r v "[]"] by simp

lemma charset_prefix_nonempty:
  "lit_match (js ''utf-8'' @ [39, 39]) v = Some w \<Longrightarrow> takeWhile (\<lambda>c. c \<noteq> 59) v \<noteq> []"
  by (cases v) (auto simp add: js_def canon_def split: if_splits)

lemma equals_quote:
  "lit_match (js ''='' @ [34]) r =
     (case lit_match (js ''='') r of
        None \<Rightarrow> None
      | Some v \<Rightarrow> (case v of [] \<Rightarrow> None | c # q \<Rightarrow> if c = 34 then Some q else None))"
  by (cases r; cases "tl r") (auto simp add: js_def canon_nonletter)

lemmas lit_filename = lit_match_append [of "js ''filename''"]

lemmas first_caps_rules = first_caps_Alt first_caps_Seq_Lit first_caps_Seq_Opt_Lit
  first_caps_Cap_Many1

lemma first_match_param_at:
  assumes "map canon charset = map canon (js ''utf-8'')"
  shows "first_match (filename_regex charset) s = map_option caps_of (param_at s)"
proof -
  have cs: "lit_match (charset @ [39, 39]) v = lit_match (js ''utf-8'' @ [39, 39]) v" for v
    by (rule lit_match_canon) (simp add: assms)
  have q: "first_caps (rmatch (Seq (Cap 2 (Many1_except 34)) (Lit [34])) v c) =
     (if takeWhile (\<lambda>c. c \<noteq> 34) v \<noteq> [] \<and> 34 \<in> set v
      then Some (c(2 \<mapsto> takeWhile (\<lambda>c. c \<noteq> 34) v)) else None)" for v c
    by (rule first_caps_quoted) simp
  show ?thesis
  proof (cases "lit_match (js ''filename'') s")
    case None
    then show ?thesis
      by (simp add: first_match_caps filename_regex_def first_caps_rules
          filename_literals lit_filename param_at_def del: rmatch.simps)
  next
    case (Some r)
    show ?thesis
    proof (cases "lit_match (js ''*='') r")
      case star: (Some v)
      with Some star_or_equals [OF star] star_not_equals [OF star] show ?thesis
        by (auto simp add: first_match_caps filename_regex_def first_caps_rules cs
            filename_literals lit_filename param_at_def ext_value_def upto_def
            simp del: rmatch.simps split: option.splits dest: charset_prefix_nonempty)
    next
      case None
      show ?thesis
      proof (cases "lit_match (js ''='') r")
        case eq_None: None
        with Some None show ?thesis
          by (simp add: first_match_caps filename_regex_def first_caps_rules
              filename_literals lit_filename param_at_def equals_quote del: rmatch.simps)
      next
        case (Some v)
        with \<open>lit_match (js ''filename'') s = Some r\<close> None show ?thesis
          by (simp add: first_match_caps filename_regex_def first_caps_rules q
              filename_literals lit_filename param_at_def equals_quote
              plain_value_def bare_value_def upto_def
              del: rmatch.simps split: option.splits list.splits)
      qed
    qed
  qed
qed


text \<open>The file name for a header that may be absent.\<close>

definition header_filename :: "jsstr option \<Rightarrow> jsstr \<Rightarrow> jsstr" where
  "header_filename contentDisposition dflt =
     (case contentDisposition of None \<Rightarrow> dflt | Some h \<Rightarrow> leftmost_filename h dflt)"

lemma str_match_first_param:
  assumes "map canon charset = map canon (js ''utf-8'')"
  shows "str_match (filename_regex charset) h = map_option caps_of (first_param h)"
proof (induction h)
  case Nil
  have "param_at [] = None" by (simp add: param_at_def js_def)
  then show ?case using first_match_param_at [OF assms, of "[]"] by simp
next
  case (Cons a t)
  then show ?case
    using first_match_param_at [OF assms, of "a # t"]
    by (cases "param_at (a # t)") simp_all
qed

lemma param_at_nonempty:
  "param_at s = Some q \<Longrightarrow> (case q of Extended v \<Rightarrow> v \<noteq> [] | Quoted v \<Rightarrow> v \<noteq> [] | Bare v \<Rightarrow> v \<noteq> [])"
  by (auto simp add: param_at_def ext_value_def plain_value_def bare_value_def upto_def
      split: option.splits list.splits if_splits dest: charset_prefix_nonempty)

lemma first_param_nonempty:
  "first_param h = Some q \<Longrightarrow> (case q of Extended v \<Rightarrow> v \<noteq> [] | Quoted v \<Rightarrow> v \<noteq> [] | Bare v \<Rightarrow> v \<noteq> [])"
proof (induction h)
  case Nil
  then show ?case by simp
next
  case (Cons a t)
  then show ?case
    using param_at_nonempty [of "a # t" q] by (cases "param_at (a # t)") simp_all
qed

lemma filename_from_header_filename:
  assumes "map canon charset = map canon (js ''utf-8'')"
  shows "filename_from (filename_regex charset) contentDisposition dflt =
         header_filename contentDisposition dflt"
proof (cases contentDisposition)
  case None
  then show ?thesis by (simp add: filename_from_def header_filename_def)
next
  case (Some h)
  show ?thesis
  proof (cases "first_param h")
    case None
    with Some show ?thesis
      using str_match_first_param [OF assms, of h]
      by (simp add: filename_from_def header_filename_def leftmost_filename_def)
  next
    case q: (Some q)
    then have "h \<noteq> []" by auto
    with q Some first_param_nonempty [OF q] show ?thesis
      using str_match_first_param [OF assms, of h]
      by (cases q)
        (auto simp add: filename_from_def header_filename_def leftmost_filename_def
          split: option.splits list.splits)
  qed
qed

lemma charsets:
  "map canon (js ''UTF-8'') = map canon (js ''utf-8'')"
  by (simp add: js_def canon_def)

lemma first_param_leftmost:
  "(\<forall>i < length pre. param_at (drop i (pre @ s)) = None) \<Longrightarrow>
   first_param (pre @ s) = first_param s"
proof (induction pre)
  case Nil
  then show ?case by simp
next
  case (Cons a pre)
  from Cons.prems have "param_at (a # pre @ s) = None" by force
  moreover from Cons.prems have "\<forall>i < length pre. param_at (drop i (pre @ s)) = None"
    by (metis Suc_less_eq append_Cons drop_Suc_Cons length_Cons)
  ultimately show ?case using Cons.IH by simp
qed

text \<open>
  C2, as the code has it. For every download operation (the hook's \<open>downloadFile\<close>, the
  orchestrator's template and final download) and every \<open>Content-Disposition\<close> value,
  the file name of a successful download is read from the leftmost position of the
  header at which one of the three forms stands: \<open>filename*=\<close> gives its percent-decoded
  text (the raw text when decoding fails), quoted \<open>filename="..."\<close> the text between the
  quotes, bare \<open>filename=\<close> its trimmed text; at one position the quoted form goes before
  the bare form. Without a header, or without any of the three forms in it, the name is
  the default: \<open>{type}_{sessionId}\<close> with \<open>.xlsx\<close> for type \<open>template\<close> and \<open>.csv\<close>
  otherwise in the hook, \<open>inventaire_template_{sessionId}.xlsx\<close> and
  \<open>inventaire_corrige_{sessionId}.csv\<close> in the orchestrator.
\<close>

theorem download_filename:
  "(ok r \<longrightarrow>
      snd (downloadFile p type sessionId (Resolved r)) =
        Inr (header_filename (content_disposition r)
               (type @ js ''_'' @ sessionId @ js ''.''
                  @ (if type = js ''template'' then js ''xlsx'' else js ''csv'')),
             blob_size r))
   \<and> (ok r \<and> truthy (opt_prop (uploadResult st) (js ''session_id'')) \<longrightarrow>
      Download (header_filename (content_disposition r)
                 (js ''inventaire_template_''
                    @ to_string p (opt_prop (uploadResult st) (js ''session_id''))
                    @ js ''.xlsx''))
        \<in> set (snd (handleDownloadTemplate p (Resolved r) st)))
   \<and> (ok r \<and> truthy (opt_prop (uploadResult st) (js ''session_id''))
        \<and> truthy (opt_prop (processResult st) (js ''final_url'')) \<longrightarrow>
      Download (header_filename (content_disposition r)
                 (js ''inventaire_corrige_''
                    @ to_string p (opt_prop (uploadResult st) (js ''session_id''))
                    @ js ''.csv''))
        \<in> set (snd (handleDownloadFinalFile p (Resolved r) st)))"
proof -
  have re: "filename_from hook_regex cd d = header_filename cd d"
    "filename_from template_regex cd d = header_filename cd d"
    "filename_from final_regex cd d = header_filename cd d" for cd d
    unfolding hook_regex_def template_regex_def final_regex_def
    by (simp_all add: filename_from_header_filename charsets)
  show ?thesis
    by (simp add: downloadFile_def handleDownloadTemplate_def handleDownloadFinalFile_def
        re Let_def)
qed


subsection \<open>Examples\<close>

lemmas header_eval = header_filename_def leftmost_filename_def param_at_def ext_value_def
  plain_value_def bare_value_def upto_def js_def canon_def

lemmas decode_eval = decodeURIComponent_def octet_def hexval_def leading_ones_def
  continuation_def utf16_encode_def

lemma example_headers:
  "header_filename (Some (js ''attachment; filename='' @ [34] @ js ''report.csv'' @ [34]))
     (js ''final_abc123.csv'') = js ''report.csv''"
  "header_filename
     (Some (js ''attachment; filename*=UTF-8'' @ [39, 39] @ js ''r%C3%A9sum%C3%A9.csv''))
     (js ''final_abc123.csv'') = js ''r'' @ [233] @ js ''sum'' @ [233] @ js ''.csv''"
  "header_filename (Some (js ''attachment; filename*=%E9.csv'')) (js ''final_abc123.csv'')
     = js ''%E9.csv''"
  "header_filename (Some (js ''attachment; filename= inventaire.csv '')) (js ''final_abc123.csv'')
     = js ''inventaire.csv''"
  "header_filename (Some (js ''attachment'')) (js ''final_abc123.csv'') = js ''final_abc123.csv''"
  "header_filename None (js ''template_abc123.xlsx'') = js ''template_abc123.xlsx''"
  by (simp_all add: header_eval decode_eval trim_def white_space_def)

text \<open>
  \<open>filename="report.csv"\<close> gives \<open>report.csv\<close>; \<open>filename*=UTF-8''r%C3%A9sum%C3%A9.csv\<close>
  gives the decoded name with its two accented letters; a header without parameter and
  an absent header give the defaults \<open>final_abc123.csv\<close> and \<open>template_abc123.xlsx\<close>;
  \<open>filename*=%E9.csv\<close>, which does not decode, gives its raw text; a bare name between
  spaces is trimmed.
\<close>

theorem download_filename_witness:
  "snd (downloadFile example_platform (js ''final'') (js ''abc123'')
          (Resolved \<lparr> status = 200, json = None,
             content_disposition =
               Some (js ''attachment; filename='' @ [34] @ js ''report.csv'' @ [34]),
             blob_size = 2048 \<rparr>))
     = Inr (js ''report.csv'', 2048)
   \<and> snd (downloadFile example_platform (js ''final'') (js ''abc123'')
          (Resolved \<lparr> status = 200, json = None,
             content_disposition =
               Some (js ''attachment; filename*=UTF-8'' @ [39, 39] @ js ''r%C3%A9sum%C3%A9.csv''),
             blob_size = 2048 \<rparr>))
     = Inr (js ''r'' @ [233] @ js ''sum'' @ [233] @ js ''.csv'', 2048)
   \<and> snd (downloadFile example_platform (js ''final'') (js ''abc123'')
          (Resolved \<lparr> status = 200, json = None,
             content_disposition = Some (js ''attachment''), blob_size = 2048 \<rparr>))
     = Inr (js ''final_abc123.csv'', 2048)
   \<and> snd (downloadFile example_platform (js ''template'') (js ''abc123'')
          (Resolved \<lparr> status = 200, json = None,
             content_disposition = None, blob_size = 2048 \<rparr>))
     = Inr (js ''template_abc123.xlsx'', 2048)
   \<and> snd (downloadFile example_platform (js ''final'') (js ''abc123'')
          (Resolved \<lparr> status = 200, json = None,
             content_disposition = Some (js ''attachment; filename*=%E9.csv''),
             blob_size = 2048 \<rparr>))
     = Inr (js ''%E9.csv'', 2048)
   \<and> snd (downloadFile example_platform (js ''final'') (js ''abc123'')
          (Resolved \<lparr> status = 200, json = None,
             content_disposition = Some (js ''attachment; filename= inventaire.csv ''),
             blob_size = 2048 \<rparr>))
     = Inr (js ''inventaire.csv'', 2048)"
proof -
  let ?r = "\<lambda>cd. \<lparr> status = 200, json = None, content_disposition = cd, blob_size = 2048 \<rparr>"
  have okr: "ok (?r cd)" for cd by (simp add: ok_def)
  have a: "snd (downloadFile example_platform (js ''final'') (js ''abc123'')
      (Resolved (?r (Some (js ''attachment; filename='' @ [34] @ js ''report.csv'' @ [34])))))
     = Inr (js ''report.csv'', 2048)"
    using download_filename [of "?r (Some (js ''attachment; filename='' @ [34] @ js ''report.csv'' @ [34]))"
        example_platform "js ''final''" "js ''abc123''"] okr example_headers(1)
    by (simp add: js_def)
  have b: "snd (downloadFile example_platform (js ''final'') (js ''abc123'')
      (Resolved (?r (Some (js ''attachment; filename*=UTF-8'' @ [39, 39] @ js ''r%C3%A9sum%C3%A9.csv'')))))
     = Inr (js ''r'' @ [233] @ js ''sum'' @ [233] @ js ''.csv'', 2048)"
    using download_filename [of "?r (Some (js ''attachment; filename*=UTF-8'' @ [39, 39] @ js ''r%C3%A9sum%C3%A9.csv''))"
        example_platform "js ''final''" "js ''abc123''"] okr example_headers(2)
    by (simp add: js_def)
  have c: "snd (downloadFile example_platform (js ''final'') (js ''abc123'')
      (Resolved (?r (Some (js ''attachment'')))))
     = Inr (js ''final_abc123.csv'', 2048)"
    using download_filename [of "?r (Some (js ''attachment''))"
        example_platform "js ''final''" "js ''abc123''"] okr example_headers(5)
    by (simp add: js_def)
  have d: "snd (downloadFile example_platform (js ''template'') (js ''abc123'')
      (Resolved (?r None)))
     = Inr (js ''template_abc123.xlsx'', 2048)"
    using download_filename [of "?r None"
        example_platform "js ''template''" "js ''abc123''"] okr example_headers(6)
    by (simp add: js_def)
  have e: "snd (downloadFile example_platform (js ''final'') (js ''abc123'')
      (Resolved (?r (Some (js ''attachment; filename*=%E9.csv'')))))
     = Inr (js ''%E9.csv'', 2048)"
    using download_filename [of "?r (Some (js ''attachment; filename*=%E9.csv''))"
        example_platform "js ''final''" "js ''abc123''"] okr example_headers(3)
    by (simp add: js_def)
  have f: "snd (downloadFile example_platform (js ''final'') (js ''abc123'')
      (Resolved (?r (Some (js ''attachment; filename= inventaire.csv '')))))
     = Inr (js ''inventaire.csv'', 2048)"
    using download_filename [of "?r (Some (js ''attachment; filename= inventaire.csv ''))"
        example_platform "js ''final''" "js ''abc123''"] okr example_headers(4)
    by (simp add: js_def)
  from a b c d e f show ?thesis by simp
qed

lemmas regex_eval = filename_from_def hook_regex_def filename_regex_def first_match_def
  js_def canon_def

text \<open>
  C2 as stated fails on a header that carries both forms with \<open>filename=\<close> first, as
  servers commonly send it: the name is \<open>a.csv\<close>, from the leftmost parameter, although the
  \<open>filename*=\<close> parameter of the same header alone gives \<open>b.csv\<close>.
\<close>

theorem filename_precedence_counterexample:
  "snd (downloadFile example_platform (js ''final'') (js ''abc123'')
          (Resolved \<lparr> status = 200, json = None,
             content_disposition =
               Some (js ''attachment; filename='' @ [34] @ js ''a.csv'' @ [34]
                     @ js ''; filename*=UTF-8'' @ [39, 39] @ js ''b.csv''),
             blob_size = 2048 \<rparr>))
     = Inr (js ''a.csv'', 2048)
   \<and> snd (downloadFile example_platform (js ''final'') (js ''abc123'')
          (Resolved \<lparr> status = 200, json = None,
             content_disposition =
               Some (js ''attachment; filename*=UTF-8'' @ [39, 39] @ js ''b.csv''),
             blob_size = 2048 \<rparr>))
     = Inr (js ''b.csv'', 2048)"
  by (simp add: downloadFile_def ok_def Let_def regex_eval decode_eval)

section \<open>Session resumption\<close>

text \<open>The state of the orchestrator when it is mounted (the initial values of its cells).\<close>

definition initial_state :: app_state where
  "initial_state =
     \<lparr> originalFile = None, completedFile = None,
       uploadStatus = js ''idle'', processStatus = js ''idle'',
       uploadResult = VNull, processResult = VNull,
       error = Text [], currentStep = 0, progressDetails = [] \<rparr>"

text \<open>Different literals are different strings.\<close>

lemma js_inject: "(js a = js b) = (a = b)"
  by (simp add: js_def inj_map_eq_map inj_def)

lemma js_Nil: "(js a = []) = (a = [])"
  by (simp add: js_def)



subsection \<open>Example sessions\<close>

text \<open>
  A completed session with the statistics 5, 200, 12, 4 and \<open>LIFO\<close>; a session with a
  generated template and no statistics; a session that is still processing.
\<close>

definition completed_session :: jsval where
  "completed_session =
     VObj [(js ''id'', VStr (js ''abc123'')),
           (js ''status'', VStr (js ''completed'')),
           (js ''original_filename'', VStr (js ''inventaire.csv'')),
           (js ''stats'',
              VObj [(js ''nb_articles'', VNum 5), (js ''total_quantity'', VNum 200),
                    (js ''total_discrepancy'', VNum 12), (js ''adjusted_items_count'', VNum 4),
                    (js ''strategy_used'', VStr (js ''LIFO''))])]"

definition template_session :: jsval where
  "template_session =
     VObj [(js ''id'', VStr (js ''s1'')),
           (js ''status'', VStr (js ''template_generated'')),
           (js ''original_filename'', VStr (js ''inventaire.csv''))]"

definition processing_session :: jsval where
  "processing_session =
     VObj [(js ''id'', VStr (js ''s2'')), (js ''status'', VStr (js ''processing''))]"

lemmas session_eval = completed_session_def template_session_def processing_session_def
  initial_state_def handleSessionSelect_def Let_def js_or_def js_inject js_Nil





text \<open>
  C9 fails on the code. The object that the handler puts into the original-file slot on
  resumption has a name and the size 0 and no \<open>isMock\<close> property, so \<open>file.isMock\<close> is
  \<open>undefined\<close>; the helper \<open>createMockFile\<close>, which sets the flag, is not called.
\<close>

theorem resumed_placeholder_not_flagged:
  "originalFile (fst (handleSessionSelect example_platform template_session initial_state))
     = Some (PlainObject [(js ''name'', VStr (js ''inventaire.csv'')), (js ''size'', VNum 0)])
   \<and> isMock (PlainObject [(js ''name'', VStr (js ''inventaire.csv'')), (js ''size'', VNum 0)])
     = VUndef
   \<and> isMock (createMockFile 0 (js ''inventaire.csv'') None) = VBool True"
  by (simp add: session_eval createMockFile_def)

section \<open>The form posted to the process endpoint\<close>

lemma requests_makeRequest:
  "requests (fst (makeRequest p endpoint options fr)) =
     [\<lparr> url = API_BASE_URL p @ endpoint, opts = options \<rparr>]"
  by (auto simp add: makeRequest_def requests_def Let_def split: sum.splits)

text \<open>
  C7, as the code has it. The hook's \<open>processFile\<close> issues one request, a POST to
  \<open>/process\<close> whose form has exactly the fields \<open>file\<close>, \<open>session_id\<close> and \<open>strategy\<close>, the
  strategy being \<open>FIFO\<close> when the caller supplies none. The orchestrator's Phase-2
  trigger, when a completed file is selected and a session id is stored, issues one
  request, a POST to \<open>/process\<close> whose form has exactly the fields \<open>file\<close> and
  \<open>session_id\<close>; otherwise it issues no request.
\<close>

theorem process_requests:
  "(\<exists>req. requests (fst (processFile p file sessionId strategy fr)) = [req]
        \<and> url req = API_BASE_URL p @ js ''/process''
        \<and> http_method (opts req) = Some (js ''POST'')
        \<and> field_names req = [js ''file'', js ''session_id'', js ''strategy'']
        \<and> field req (js ''session_id'') = Some (StringValue sessionId)
        \<and> field req (js ''strategy'') =
              Some (StringValue (case strategy of None \<Rightarrow> js ''FIFO'' | Some s \<Rightarrow> s)))
   \<and> (completedFile st \<noteq> None \<and> truthy (opt_prop (uploadResult st) (js ''session_id'')) \<longrightarrow>
        (\<exists>req. requests (snd (handleProcessCompleted p fr st)) = [req]
           \<and> url req = API_BASE_URL p @ js ''/process''
           \<and> http_method (opts req) = Some (js ''POST'')
           \<and> field_names req = [js ''file'', js ''session_id'']
           \<and> field req (js ''session_id'') =
                 Some (StringValue (to_string p (opt_prop (uploadResult st) (js ''session_id''))))))
   \<and> (completedFile st = None \<or> \<not> truthy (opt_prop (uploadResult st) (js ''session_id'')) \<longrightarrow>
        requests (snd (handleProcessCompleted p fr st)) = [])"
proof (intro conjI impI)
  show "\<exists>req. requests (fst (processFile p file sessionId strategy fr)) = [req]
        \<and> url req = API_BASE_URL p @ js ''/process''
        \<and> http_method (opts req) = Some (js ''POST'')
        \<and> field_names req = [js ''file'', js ''session_id'', js ''strategy'']
        \<and> field req (js ''session_id'') = Some (StringValue sessionId)
        \<and> field req (js ''strategy'') =
              Some (StringValue (case strategy of None \<Rightarrow> js ''FIFO'' | Some s \<Rightarrow> s))"
    by (simp add: processFile_def requests_makeRequest field_names_def field_def js_inject)
next
  assume "completedFile st \<noteq> None \<and> truthy (opt_prop (uploadResult st) (js ''session_id''))"
  then show "\<exists>req. requests (snd (handleProcessCompleted p fr st)) = [req]
           \<and> url req = API_BASE_URL p @ js ''/process''
           \<and> http_method (opts req) = Some (js ''POST'')
           \<and> field_names req = [js ''file'', js ''session_id'']
           \<and> field req (js ''session_id'') =
                 Some (StringValue (to_string p (opt_prop (uploadResult st) (js ''session_id''))))"
    by (auto simp add: handleProcessCompleted_def requests_def field_names_def field_def
        js_inject Let_def split: sum.splits option.splits fetch_result.splits)
next
  assume "completedFile st = None \<or> \<not> truthy (opt_prop (uploadResult st) (js ''session_id''))"
  then show "requests (snd (handleProcessCompleted p fr st)) = []"
    by (auto simp add: handleProcessCompleted_def requests_def split: option.splits)
qed

text \<open>
  The orchestrator after a successful import of session \<open>abc123\<close>, with a completed
  template selected, and an answer of the process endpoint.
\<close>

definition after_upload :: app_state where
  "after_upload =
     initial_state
       \<lparr> uploadStatus := js ''success'',
         uploadResult := VObj [(js ''session_id'', VStr (js ''abc123''))],
         currentStep := 1,
         completedFile := Some (BrowserFile (js ''template_rempli.xlsx'') 4096) \<rparr>"

definition processed :: fetch_result where
  "processed =
     Resolved \<lparr> status = 200,
       json = Some (VObj [(js ''final_url'', VStr (js ''/api/download/final/abc123''))]),
       content_disposition = None, blob_size = 48 \<rparr>"

text \<open>
  The request of \<open>processFile\<close> without a strategy carries \<open>strategy = FIFO\<close>; the request
  of the Phase-2 trigger carries the file and the session id; from the initial state the
  trigger issues no request.
\<close>

theorem process_requests_witness:
  "requests (fst (processFile example_platform (BrowserFile (js ''template_rempli.xlsx'') 4096)
                    (js ''abc123'') None processed))
     = [\<lparr> url = js ''http://localhost:5000/api/process'',
          opts = \<lparr> http_method = Some (js ''POST''),
                   body = Some [(js ''file'', FileValue (BrowserFile (js ''template_rempli.xlsx'') 4096)),
                                (js ''session_id'', StringValue (js ''abc123'')),
                                (js ''strategy'', StringValue (js ''FIFO''))] \<rparr> \<rparr>]
   \<and> requests (snd (handleProcessCompleted example_platform processed after_upload))
     = [\<lparr> url = js ''http://localhost:5000/api/process'',
          opts = \<lparr> http_method = Some (js ''POST''),
                   body = Some [(js ''file'', FileValue (BrowserFile (js ''template_rempli.xlsx'') 4096)),
                                (js ''session_id'', StringValue (js ''abc123''))] \<rparr> \<rparr>]
   \<and> requests (snd (handleProcessCompleted example_platform processed initial_state)) = []"
proof -
  have a: "requests (fst (processFile example_platform (BrowserFile (js ''template_rempli.xlsx'') 4096)
                    (js ''abc123'') None processed))
     = [\<lparr> url = js ''http://localhost:5000/api/process'',
          opts = \<lparr> http_method = Some (js ''POST''),
                   body = Some [(js ''file'', FileValue (BrowserFile (js ''template_rempli.xlsx'') 4096)),
                                (js ''session_id'', StringValue (js ''abc123'')),
                                (js ''strategy'', StringValue (js ''FIFO''))] \<rparr> \<rparr>]"
    by (simp add: processFile_def requests_makeRequest API_BASE_URL_def example_platform_def js_def)
  have b: "requests (snd (handleProcessCompleted example_platform processed after_upload))
     = [\<lparr> url = js ''http://localhost:5000/api/process'',
          opts = \<lparr> http_method = Some (js ''POST''),
                   body = Some [(js ''file'', FileValue (BrowserFile (js ''template_rempli.xlsx'') 4096)),
                                (js ''session_id'', StringValue (js ''abc123''))] \<rparr> \<rparr>]"
    by (simp add: handleProcessCompleted_def after_upload_def initial_state_def processed_def
        requests_def ok_def Let_def API_BASE_URL_def example_platform_def js_inject js_Nil)
       (simp add: js_def)
  have c: "requests (snd (handleProcessCompleted example_platform processed initial_state)) = []"
    using process_requests [of example_platform "BrowserFile [] 0" "[]" None processed initial_state]
    by (simp add: initial_state_def)
  from a b c show ?thesis by simp
qed

text \<open>
  C7 as stated fails on the orchestrator: the form of its Phase-2 request has the two
  fields \<open>file\<close> and \<open>session_id\<close> and no field \<open>strategy\<close>.
\<close>

theorem orchestrator_process_counterexample:
  "snd (handleProcessCompleted example_platform processed after_upload)
     = [Fetch \<lparr> url = js ''http://localhost:5000/api/process'',
          opts = \<lparr> http_method = Some (js ''POST''),
                   body = Some [(js ''file'', FileValue (BrowserFile (js ''template_rempli.xlsx'') 4096)),
                                (js ''session_id'', StringValue (js ''abc123''))] \<rparr> \<rparr>,
        Toast (js ''success'') (Text (js ''Traitement termin'' @ [233] @ js '' avec succ'' @ [232] @ js ''s !''))]"
  by (simp add: handleProcessCompleted_def after_upload_def initial_state_def processed_def
        ok_def Let_def API_BASE_URL_def example_platform_def js_inject js_Nil)
     (simp add: js_def)

section \<open>The buttons of a session row\<close>

text \<open>
  C8, as the code has it. For every session in the quick panel: a status other than
  \<open>template_generated\<close> and \<open>completed\<close> renders no download action and one button that
  calls the session selection; that button is disabled and labelled \<open>Erreur\<close> or
  \<open>En cours...\<close> when the status is \<open>error\<close> or \<open>processing\<close>, and is enabled and
  labelled \<open>Reprendre\<close> for any other status. \<open>template_generated\<close> renders an enabled
  template download and an enabled resume button; \<open>completed\<close> renders enabled template
  and final downloads and an enabled resume button.
\<close>

theorem session_button_gating:
  "(session_status \<noteq> VStr (js ''template_generated'') \<and> session_status \<noteq> VStr (js ''completed'')
      \<longrightarrow> session_buttons session_status =
            [\<lparr> caption =
                 (if session_status = VStr (js ''error'') then js ''Erreur''
                  else if session_status = VStr (js ''processing'') then js ''En cours...''
                  else js ''Reprendre''),
               disabled = (session_status = VStr (js ''error'')
                           \<or> session_status = VStr (js ''processing'')),
               onClick = HandleSessionSelect \<rparr>])
   \<and> (session_status = VStr (js ''template_generated'')
      \<longrightarrow> session_buttons session_status =
            [\<lparr> caption = js ''Template'', disabled = False,
               onClick = HandleDownload (js ''template'') \<rparr>,
             \<lparr> caption = js ''Reprendre'', disabled = False, onClick = HandleSessionSelect \<rparr>])
   \<and> (session_status = VStr (js ''completed'')
      \<longrightarrow> session_buttons session_status =
            [\<lparr> caption = js ''Template'', disabled = False,
               onClick = HandleDownload (js ''template'') \<rparr>,
             \<lparr> caption = js ''Final'', disabled = False,
               onClick = HandleDownload (js ''final'') \<rparr>,
             \<lparr> caption = js ''Reprendre'', disabled = False, onClick = HandleSessionSelect \<rparr>])"
  by (simp add: session_buttons_def js_inject)

text \<open>The rows of an \<open>error\<close>, a \<open>processing\<close> and a \<open>completed\<close> session.\<close>

theorem session_button_gating_witness:
  "session_buttons (VStr (js ''error'')) =
     [\<lparr> caption = js ''Erreur'', disabled = True, onClick = HandleSessionSelect \<rparr>]
   \<and> session_buttons (VStr (js ''processing'')) =
     [\<lparr> caption = js ''En cours...'', disabled = True, onClick = HandleSessionSelect \<rparr>]
   \<and> session_buttons (VStr (js ''completed'')) =
     [\<lparr> caption = js ''Template'', disabled = False, onClick = HandleDownload (js ''template'') \<rparr>,
      \<lparr> caption = js ''Final'', disabled = False, onClick = HandleDownload (js ''final'') \<rparr>,
      \<lparr> caption = js ''Reprendre'', disabled = False, onClick = HandleSessionSelect \<rparr>]"
  using session_button_gating [of "VStr (js ''error'')"]
    session_button_gating [of "VStr (js ''processing'')"]
    session_button_gating [of "VStr (js ''completed'')"]
  by (simp add: js_inject)

text \<open>
  C8 as stated fails on a status such as \<open>uploading\<close>, which is outside
  \<open>{template_generated, completed}\<close>: its row has an enabled button labelled \<open>Reprendre\<close>
  that calls the session selection.
\<close>

theorem uploading_resume_counterexample:
  "session_buttons (VStr (js ''uploading'')) =
     [\<lparr> caption = js ''Reprendre'', disabled = False, onClick = HandleSessionSelect \<rparr>]"
  by (simp add: session_buttons_def js_inject)

section \<open>Bulk delete\<close>

text \<open>The request that deletes a session, and the effects of one successful delete call.\<close>

definition delete_request :: "platform \<Rightarrow> jsstr \<Rightarrow> request" where
  "delete_request p sessionId =
     \<lparr> url = API_BASE_URL p @ js ''/sessions/'' @ sessionId,
       opts = \<lparr> http_method = Some (js ''DELETE''), body = None \<rparr> \<rparr>"

definition delete_call :: "platform \<Rightarrow> jsstr \<Rightarrow> effect list" where
  "delete_call p sessionId =
     [SetLoading True, SetError None, Fetch (delete_request p sessionId), SetLoading False]"

lemma deleteSession_succeeds:
  "succeeds fr \<Longrightarrow> \<exists>d. deleteSession p sessionId fr = (delete_call p sessionId, Inr d)"
  by (auto simp add: succeeds_def deleteSession_def makeRequest_def delete_call_def
      delete_request_def Let_def split: fetch_result.splits)

lemma deleteSession_fails:
  "\<not> succeeds fr \<Longrightarrow>
   \<exists>es err. deleteSession p sessionId fr = (es, Inl err)
     \<and> requests es = [delete_request p sessionId]"
  by (auto simp add: succeeds_def deleteSession_def makeRequest_def requests_def
      delete_request_def Let_def split: fetch_result.splits option.splits sum.splits)

lemma requests_append: "requests (xs @ ys) = requests xs @ requests ys"
  by (simp add: requests_def)

lemma requests_delete_call: "requests (delete_call p sessionId) = [delete_request p sessionId]"
  by (simp add: requests_def delete_call_def)

lemma requests_delete_calls:
  "requests (concat (map (delete_call p) ids)) = map (delete_request p) ids"
  by (induction ids) (simp_all add: requests_append requests_delete_call, simp add: requests_def)

lemma delete_each_all:
  "(\<forall>j < length ids. succeeds (net (k + j))) \<Longrightarrow>
   delete_each p net k ids = (concat (map (delete_call p) ids), None)"
proof (induction ids arbitrary: k)
  case Nil
  then show ?case by simp
next
  case (Cons sessionId rest)
  from Cons.prems have "succeeds (net k)" by force
  then obtain d where d: "deleteSession p sessionId (net k) = (delete_call p sessionId, Inr d)"
    using deleteSession_succeeds by blast
  from Cons.prems have "\<forall>j < length rest. succeeds (net (Suc k + j))" by force
  then have "delete_each p net (Suc k) rest = (concat (map (delete_call p) rest), None)"
    by (rule Cons.IH)
  with d show ?case by simp
qed

lemma delete_each_stops:
  "n < length ids \<Longrightarrow> (\<forall>j < n. succeeds (net (k + j))) \<Longrightarrow> \<not> succeeds (net (k + n)) \<Longrightarrow>
   \<exists>es err. delete_each p net k ids = (es, Some err)
      \<and> requests es = map (delete_request p) (take (Suc n) ids)"
proof (induction ids arbitrary: k n)
  case Nil
  then show ?case by simp
next
  case (Cons sessionId rest)
  show ?case
  proof (cases n)
    case 0
    with Cons.prems have "\<not> succeeds (net k)" by simp
    then obtain es err where "deleteSession p sessionId (net k) = (es, Inl err)"
      and "requests es = [delete_request p sessionId]"
      using deleteSession_fails by blast
    with 0 show ?thesis by simp
  next
    case (Suc m)
    with Cons.prems have "succeeds (net k)" by force
    then obtain d where d: "deleteSession p sessionId (net k) = (delete_call p sessionId, Inr d)"
      using deleteSession_succeeds by blast
    from Suc Cons.prems have "m < length rest" "\<forall>j < m. succeeds (net (Suc k + j))"
      "\<not> succeeds (net (Suc k + m))" by force+
    from Cons.IH [OF this] obtain es err where
      "delete_each p net (Suc k) rest = (es, Some err)"
      "requests es = map (delete_request p) (take (Suc m) rest)" by blast
    with d Suc show ?thesis by (simp add: requests_append requests_delete_call)
  qed
qed

text \<open>
  C10, as the code has it. For every selection that is not empty: when every delete
  request succeeds, the bulk delete issues exactly one delete request per selected
  session, in the order of the selection and strictly one after the other (each call
  has lowered the loading flag, which it does after its response, before the next
  request is issued), then removes exactly the selected sessions from the displayed
  list and clears the selection. When the request number \<open>k\<close> is the first that fails,
  the requests issued are those of the first \<open>k + 1\<close> selected sessions and no more, and
  the displayed list and the selection stay as they were.
\<close>

theorem bulk_delete:
  assumes "selectedSessions st \<noteq> []"
  shows
   "((\<forall>k < length (selectedSessions st). succeeds (net k)) \<longrightarrow>
        snd (handleBulkAction p net (js ''delete'') st)
          = concat (map (delete_call p) (selectedSessions st))
        \<and> requests (snd (handleBulkAction p net (js ''delete'') st))
          = map (delete_request p) (selectedSessions st)
        \<and> sessions (fst (handleBulkAction p net (js ''delete'') st))
          = filter (\<lambda>s. \<not> selected (selectedSessions st) s) (sessions st)
        \<and> selectedSessions (fst (handleBulkAction p net (js ''delete'') st)) = [])
    \<and> (\<forall>k < length (selectedSessions st).
          (\<forall>j < k. succeeds (net j)) \<and> \<not> succeeds (net k) \<longrightarrow>
            requests (snd (handleBulkAction p net (js ''delete'') st))
              = map (delete_request p) (take (Suc k) (selectedSessions st))
            \<and> fst (handleBulkAction p net (js ''delete'') st) = st)"
proof (intro conjI impI allI)
  assume a: "\<forall>k < length (selectedSessions st). succeeds (net k)"
  then have "\<forall>j < length (selectedSessions st). succeeds (net (0 + j))" by simp
  from delete_each_all [OF this]
  have e: "delete_each p net 0 (selectedSessions st)
      = (concat (map (delete_call p) (selectedSessions st)), None)" .
  with assms show "snd (handleBulkAction p net (js ''delete'') st)
          = concat (map (delete_call p) (selectedSessions st))"
    by (simp add: handleBulkAction_def)
  with requests_delete_calls show "requests (snd (handleBulkAction p net (js ''delete'') st))
          = map (delete_request p) (selectedSessions st)" by simp
  from e assms show "sessions (fst (handleBulkAction p net (js ''delete'') st))
          = filter (\<lambda>s. \<not> selected (selectedSessions st) s) (sessions st)"
    by (simp add: handleBulkAction_def)
  from e assms show "selectedSessions (fst (handleBulkAction p net (js ''delete'') st)) = []"
    by (simp add: handleBulkAction_def)
next
  fix k
  assume k: "k < length (selectedSessions st)"
    and f: "(\<forall>j < k. succeeds (net j)) \<and> \<not> succeeds (net k)"
  then have "\<forall>j < k. succeeds (net (0 + j))" "\<not> succeeds (net (0 + k))" by simp_all
  from delete_each_stops [OF k this] obtain es err where
    e: "delete_each p net 0 (selectedSessions st) = (es, Some err)"
    and r: "requests es = map (delete_request p) (take (Suc k) (selectedSessions st))" by blast
  from e r assms show "requests (snd (handleBulkAction p net (js ''delete'') st))
              = map (delete_request p) (take (Suc k) (selectedSessions st))"
    by (simp add: handleBulkAction_def requests_append requests_def)
  from e assms show "fst (handleBulkAction p net (js ''delete'') st) = st"
    by (simp add: handleBulkAction_def)
qed


text \<open>
  A dashboard with three sessions, the first and the third selected; an answer that
  confirms a delete and an answer that refuses it.
\<close>

definition three_sessions :: dashboard_state where
  "three_sessions =
     \<lparr> sessions =
         [[(js ''id'', VStr (js ''s1'')), (js ''status'', VStr (js ''completed''))],
          [(js ''id'', VStr (js ''s2'')), (js ''status'', VStr (js ''processing''))],
          [(js ''id'', VStr (js ''s3'')), (js ''status'', VStr (js ''error''))]],
       selectedSessions = [js ''s1'', js ''s3''] \<rparr>"

definition deleted :: fetch_result where
  "deleted =
     Resolved \<lparr> status = 200, json = Some (VObj [(js ''success'', VBool True)]),
       content_disposition = None, blob_size = 16 \<rparr>"

definition refused :: fetch_result where
  "refused =
     Resolved \<lparr> status = 500, json = Some (VObj [(js ''error'', VStr (js ''Erreur serveur''))]),
       content_disposition = None, blob_size = 27 \<rparr>"

lemma succeeds_examples: "succeeds deleted" "\<not> succeeds refused"
  by (simp_all add: succeeds_def deleted_def refused_def ok_def)

text \<open>
  With every delete confirmed: two requests, for \<open>s1\<close> then \<open>s3\<close>; the list keeps \<open>s2\<close>
  alone; the selection is empty.
\<close>

theorem bulk_delete_witness:
  "requests (snd (handleBulkAction example_platform (\<lambda>k. deleted) (js ''delete'') three_sessions))
     = [\<lparr> url = js ''http://localhost:5000/api/sessions/s1'',
          opts = \<lparr> http_method = Some (js ''DELETE''), body = None \<rparr> \<rparr>,
        \<lparr> url = js ''http://localhost:5000/api/sessions/s3'',
          opts = \<lparr> http_method = Some (js ''DELETE''), body = None \<rparr> \<rparr>]
   \<and> sessions (fst (handleBulkAction example_platform (\<lambda>k. deleted) (js ''delete'') three_sessions))
     = [[(js ''id'', VStr (js ''s2'')), (js ''status'', VStr (js ''processing''))]]
   \<and> selectedSessions
        (fst (handleBulkAction example_platform (\<lambda>k. deleted) (js ''delete'') three_sessions))
     = []"
proof -
  have ne: "selectedSessions three_sessions \<noteq> []" by (simp add: three_sessions_def)
  have ok: "\<forall>k < length (selectedSessions three_sessions). succeeds ((\<lambda>k. deleted) k)"
    by (simp add: succeeds_examples)
  from bulk_delete [OF ne, of "\<lambda>k. deleted" example_platform] ok
  have "requests (snd (handleBulkAction example_platform (\<lambda>k. deleted) (js ''delete'') three_sessions))
          = map (delete_request example_platform) (selectedSessions three_sessions)
        \<and> sessions (fst (handleBulkAction example_platform (\<lambda>k. deleted) (js ''delete'') three_sessions))
          = filter (\<lambda>s. \<not> selected (selectedSessions three_sessions) s) (sessions three_sessions)
        \<and> selectedSessions
            (fst (handleBulkAction example_platform (\<lambda>k. deleted) (js ''delete'') three_sessions)) = []"
    by blast
  then show ?thesis
    by (simp add: three_sessions_def selected_def delete_request_def API_BASE_URL_def
        example_platform_def js_inject) (simp add: js_def)
qed

text \<open>
  C10 as stated fails when a delete is refused: with two sessions selected and the first
  delete refused, one request is issued, not two, and the list and the selection are
  unchanged.
\<close>

theorem bulk_delete_failure_counterexample:
  "length (selectedSessions three_sessions) = 2
   \<and> requests (snd (handleBulkAction example_platform (\<lambda>k. refused) (js ''delete'') three_sessions))
     = [\<lparr> url = js ''http://localhost:5000/api/sessions/s1'',
          opts = \<lparr> http_method = Some (js ''DELETE''), body = None \<rparr> \<rparr>]
   \<and> fst (handleBulkAction example_platform (\<lambda>k. refused) (js ''delete'') three_sessions)
     = three_sessions"
  by (simp add: handleBulkAction_def three_sessions_def refused_def deleteSession_def
      makeRequest_def ok_def requests_def Let_def js_or_def API_BASE_URL_def example_platform_def
      js_inject js_Nil) (simp add: js_def)

end
